theory Spec2Isabelle
  imports Complex_Main
begin

section \<open>Python values\<close>

subsection \<open>Floats\<close>

text \<open>
  A Python \<open>float\<close> is a finite number, one of the two infinities, or NaN. The models
  below only compare floats and pass them on, so a finite float is represented by the real
  number it denotes (every double is one; \<open>-0.0\<close> and \<open>0.0\<close> compare equal in Python
  and are the same real here). Comparisons follow IEEE 754 as Python implements them:
  every comparison with NaN is false.
\<close>

datatype pyfloat = Finite real | PosInf | NegInf | NaN

text \<open>\<open>fle a b\<close> is Python's \<open>a <= b\<close>, \<open>flt a b\<close> is \<open>a < b\<close>.\<close>

fun fle :: "pyfloat \<Rightarrow> pyfloat \<Rightarrow> bool" where
  "fle NaN b = False"
| "fle a NaN = False"
| "fle NegInf b = True"
| "fle a PosInf = True"
| "fle (Finite a) (Finite b) = (a \<le> b)"
| "fle PosInf b = False"
| "fle a NegInf = False"

fun flt :: "pyfloat \<Rightarrow> pyfloat \<Rightarrow> bool" where
  "flt NaN b = False"
| "flt a NaN = False"
| "flt PosInf b = False"
| "flt a NegInf = False"
| "flt NegInf b = True"
| "flt a PosInf = True"
| "flt (Finite a) (Finite b) = (a < b)"

text \<open>
  The builtins \<open>min(a, b)\<close> and \<open>max(a, b)\<close> keep the first argument unless the second
  is strictly smaller (strictly greater).
\<close>

definition py_min :: "pyfloat \<Rightarrow> pyfloat \<Rightarrow> pyfloat" where
  "py_min a b = (if flt b a then b else a)"

definition py_max :: "pyfloat \<Rightarrow> pyfloat \<Rightarrow> pyfloat" where
  "py_max a b = (if flt a b then b else a)"

text \<open>The chained comparison \<open>lo <= v <= hi\<close>.\<close>

abbreviation between :: "pyfloat \<Rightarrow> pyfloat \<Rightarrow> pyfloat \<Rightarrow> bool" where
  "between lo v hi \<equiv> fle lo v \<and> fle v hi"

subsection \<open>Strings\<close>

text \<open>
  A Python \<open>str\<close> is a sequence of code points; the model covers the code points below
  256 (Latin-1), one \<open>char\<close> each, so \<open>length\<close> is Python's \<open>len\<close>.

  \<open>str.strip()\<close> without arguments removes leading and trailing whitespace, where
  whitespace is what \<open>str.isspace\<close> accepts: in this range the code points 9 to 13,
  28 to 32, 133 and 160.
\<close>

definition isspace :: "char \<Rightarrow> bool" where
  "isspace c = (let n = (of_char c :: nat) in
     (9 \<le> n \<and> n \<le> 13) \<or> (28 \<le> n \<and> n \<le> 32) \<or> n = 133 \<or> n = 160)"

definition lstrip :: "string \<Rightarrow> string" where
  "lstrip s = dropWhile isspace s"

definition rstrip :: "string \<Rightarrow> string" where
  "rstrip s = rev (dropWhile isspace (rev s))"

definition strip :: "string \<Rightarrow> string" where
  "strip s = rstrip (lstrip s)"

text \<open>
  \<open>str.lower()\<close>: in this range the upper-case letters are A to Z (65 to 90) and the
  Latin-1 capitals 192 to 222 except the multiplication sign 215; each maps to the code
  point 32 above it.
\<close>

definition lower_char :: "char \<Rightarrow> char" where
  "lower_char c = (let n = (of_char c :: nat) in
     if (65 \<le> n \<and> n \<le> 90) \<or> (192 \<le> n \<and> n \<le> 222 \<and> n \<noteq> 215)
     then char_of (n + 32) else c)"

definition lower :: "string \<Rightarrow> string" where
  "lower s = map lower_char s"

text \<open>
  \<open>str.isdigit\<close>: the decimal digits 48 to 57 and the superscript digits 178, 179 and
  185.
\<close>

definition isdigit :: "char \<Rightarrow> bool" where
  "isdigit c = (let n = (of_char c :: nat) in
     (48 \<le> n \<and> n \<le> 57) \<or> n = 178 \<or> n = 179 \<or> n = 185)"

section \<open>The validation framework\<close>

text \<open>
  The models are pydantic \<open>BaseModel\<close> classes written against the 1.x interface
  (\<open>validator\<close>, \<open>Config.schema_extra\<close>). Constructing a model validates the keyword
  arguments field by field, in declaration order:
  \<^item> a field that is not supplied takes its default (or the result of its
    \<open>default_factory\<close>) and is not validated, unless one of its validators is declared
    \<open>always=True\<close>; a required field (\<open>Field(...)\<close>) that is not supplied is an error;
  \<^item> a supplied field first passes the checks of its declared type and of its \<open>Field\<close>
    constraints (\<open>ge\<close>, \<open>le\<close>, \<open>min_length\<close>, \<open>max_length\<close>), then the functions
    decorated with \<open>@validator\<close> for it, each receiving the previous result;
  \<^item> the errors of all fields are collected; if there is any, construction raises
    \<open>ValidationError\<close> with the list, otherwise the model holds the validated values.
  Keyword arguments are typed here: a float field receives a float, a string field a
  string. An \<open>Optional\<close> field with default \<open>None\<close> receives \<open>None\<close> both when it is
  left out and when \<open>None\<close> is passed.
\<close>

datatype error_kind =
    MissingError
  | NumberNotGeError
  | NumberNotLeError
  | AnyStrMinLengthError
  | AnyStrMaxLengthError
  | ValueError string

type_synonym 'a validated = "error_kind + 'a"

type_synonym ValidationError = "(string \<times> error_kind) list"

text \<open>
  The constraint check of a numeric field:
  \<^verbatim>\<open>
  if field_type.ge is not None and not v >= field_type.ge: raise NumberNotGeError
  if field_type.le is not None and not v <= field_type.le: raise NumberNotLeError
  return v
  \<close>
\<close>

definition number_size_validator ::
  "pyfloat option \<Rightarrow> pyfloat option \<Rightarrow> pyfloat \<Rightarrow> pyfloat validated" where
  "number_size_validator ge le v =
     (if (case ge of Some b \<Rightarrow> \<not> fle b v | None \<Rightarrow> False) then Inl NumberNotGeError
      else if (case le of Some b \<Rightarrow> \<not> fle v b | None \<Rightarrow> False) then Inl NumberNotLeError
      else Inr v)"

definition int_size_validator :: "int option \<Rightarrow> int option \<Rightarrow> int \<Rightarrow> int validated" where
  "int_size_validator ge le v =
     (if (case ge of Some b \<Rightarrow> \<not> b \<le> v | None \<Rightarrow> False) then Inl NumberNotGeError
      else if (case le of Some b \<Rightarrow> \<not> v \<le> b | None \<Rightarrow> False) then Inl NumberNotLeError
      else Inr v)"

text \<open>The length check of a constrained string field.\<close>

definition constr_length_validator :: "nat \<Rightarrow> nat option \<Rightarrow> string \<Rightarrow> string validated" where
  "constr_length_validator min_length max_length v =
     (if length v < min_length then Inl AnyStrMinLengthError
      else if (case max_length of Some n \<Rightarrow> length v > n | None \<Rightarrow> False)
        then Inl AnyStrMaxLengthError
      else Inr v)"

text \<open>Running the next validator on the result of the previous one.\<close>

definition and_then :: "'a validated \<Rightarrow> ('a \<Rightarrow> 'b validated) \<Rightarrow> 'b validated" where
  "and_then r f = (case r of Inl e \<Rightarrow> Inl e | Inr v \<Rightarrow> f v)"

text \<open>
  A field with a default whose validators are not \<open>always\<close>, and a required field.
\<close>

definition with_default :: "'a \<Rightarrow> ('a \<Rightarrow> 'a validated) \<Rightarrow> 'a option \<Rightarrow> 'a validated" where
  "with_default dflt validate arg = (case arg of None \<Rightarrow> Inr dflt | Some v \<Rightarrow> validate v)"

definition required :: "('a \<Rightarrow> 'b validated) \<Rightarrow> 'a option \<Rightarrow> 'b validated" where
  "required validate arg = (case arg of None \<Rightarrow> Inl MissingError | Some v \<Rightarrow> validate v)"

text \<open>The error entry of a field, located by the field's name, and its validated content.\<close>

definition errors_at :: "string \<Rightarrow> 'a validated \<Rightarrow> ValidationError" where
  "errors_at loc r = (case r of Inl e \<Rightarrow> [(loc, e)] | Inr v \<Rightarrow> [])"

definition valid :: "'a validated \<Rightarrow> 'a" where
  "valid r = projr r"

section \<open>Models of \<open>app/models/enhanced_lead.py\<close>\<close>

datatype CollectionStrategy = DIRECT | CONVERSATIONAL | PROGRESSIVE

datatype LeadPriority = LOW | MEDIUM | HIGH | URGENT

datatype LeadStatus =
    NEW
  | CONTACTED
  | QUALIFIED
  | PROPOSAL_SENT
  | NEGOTIATION
  | CLOSED_WON
  | CLOSED_LOST

text \<open>
  Declared after \<open>LeadStatus\<close>, so that the plain name \<open>QUALIFIED\<close> is the
  qualification stage; the lead status of that name is \<open>LeadStatus.QUALIFIED\<close>.
\<close>

datatype QualificationStage =
    INITIAL_INTEREST
  | NEED_ASSESSMENT
  | BUDGET_QUALIFICATION
  | AUTHORITY_VERIFICATION
  | TIMELINE_DISCUSSION
  | QUALIFIED
  | DISQUALIFIED

subsection \<open>ConversationMetrics\<close>

record ConversationMetrics =
  engagement_score :: pyfloat
  intent_strength :: pyfloat
  urgency_level :: pyfloat
  sentiment_score :: pyfloat
  question_count :: int
  response_time_avg :: pyfloat
  conversation_length :: int

text \<open>The keyword arguments of the constructor: \<open>None\<close> for an argument left out.\<close>

record ConversationMetrics_kw =
  engagement_score :: "pyfloat option"
  intent_strength :: "pyfloat option"
  urgency_level :: "pyfloat option"
  sentiment_score :: "pyfloat option"
  question_count :: "int option"
  response_time_avg :: "pyfloat option"
  conversation_length :: "int option"

definition ConversationMetrics_init ::
  "ConversationMetrics_kw \<Rightarrow> ValidationError + ConversationMetrics" where
  "ConversationMetrics_init kw =
     (let engagement = with_default (Finite 0)
            (number_size_validator (Some (Finite 0)) (Some (Finite 1)))
            (ConversationMetrics_kw.engagement_score kw);
          intent = with_default (Finite 0)
            (number_size_validator (Some (Finite 0)) (Some (Finite 1)))
            (ConversationMetrics_kw.intent_strength kw);
          urgency = with_default (Finite 0)
            (number_size_validator (Some (Finite 0)) (Some (Finite 1)))
            (ConversationMetrics_kw.urgency_level kw);
          sentiment = with_default (Finite 0)
            (number_size_validator (Some (Finite (- 1))) (Some (Finite 1)))
            (ConversationMetrics_kw.sentiment_score kw);
          questions = with_default 0 (int_size_validator (Some 0) None)
            (ConversationMetrics_kw.question_count kw);
          response_time = with_default (Finite 0)
            (number_size_validator (Some (Finite 0)) None)
            (ConversationMetrics_kw.response_time_avg kw);
          messages = with_default 0 (int_size_validator (Some 0) None)
            (ConversationMetrics_kw.conversation_length kw);
          errors = errors_at ''engagement_score'' engagement
            @ errors_at ''intent_strength'' intent
            @ errors_at ''urgency_level'' urgency
            @ errors_at ''sentiment_score'' sentiment
            @ errors_at ''question_count'' questions
            @ errors_at ''response_time_avg'' response_time
            @ errors_at ''conversation_length'' messages
      in if errors = []
         then Inr \<lparr>ConversationMetrics.engagement_score = valid engagement,
                   ConversationMetrics.intent_strength = valid intent,
                   ConversationMetrics.urgency_level = valid urgency,
                   ConversationMetrics.sentiment_score = valid sentiment,
                   ConversationMetrics.question_count = valid questions,
                   ConversationMetrics.response_time_avg = valid response_time,
                   ConversationMetrics.conversation_length = valid messages\<rparr>
         else Inl errors)"

subsection \<open>The other value models\<close>

record ContactInfo =
  email :: "string option"
  phone :: "string option"
  name :: "string option"
  company :: "string option"
  job_title :: "string option"
  linkedin_url :: "string option"
  website :: "string option"

record QualificationData =
  budget :: "string option"
  authority :: "string option"
  need :: "string option"
  timeline :: "string option"
  company_size :: "string option"
  industry :: "string option"
  current_solution :: "string option"
  pain_points :: "string list"

record LeadSignals =
  buying_intent_keywords :: "string list"
  urgency_indicators :: "string list"
  budget_mentions :: "string list"
  authority_indicators :: "string list"
  competitor_mentions :: "string list"
  pain_point_expressions :: "string list"
  timeline_mentions :: "string list"

text \<open>The field \<open>context\<close> of the source is \<open>question_context\<close> here.\<close>

record QualificationQuestion =
  question :: string
  category :: string
  priority :: int
  question_context :: string
  follow_up_questions :: "string list"

record LeadAnalysis =
  is_potential_lead :: bool
  confidence_score :: pyfloat
  qualification_stage :: QualificationStage
  lead_signals :: LeadSignals
  suggested_questions :: "QualificationQuestion list"
  next_actions :: "string list"
  risk_factors :: "string list"

text \<open>The models built by the default factories: every field at its default.\<close>

definition ContactInfo_default :: ContactInfo where
  "ContactInfo_default =
     \<lparr>ContactInfo.email = None, ContactInfo.phone = None, ContactInfo.name = None,
      ContactInfo.company = None, ContactInfo.job_title = None,
      ContactInfo.linkedin_url = None, ContactInfo.website = None\<rparr>"

definition QualificationData_default :: QualificationData where
  "QualificationData_default =
     \<lparr>QualificationData.budget = None, QualificationData.authority = None,
      QualificationData.need = None, QualificationData.timeline = None,
      QualificationData.company_size = None, QualificationData.industry = None,
      QualificationData.current_solution = None, QualificationData.pain_points = []\<rparr>"

definition ConversationMetrics_default :: ConversationMetrics where
  "ConversationMetrics_default =
     \<lparr>ConversationMetrics.engagement_score = Finite 0,
      ConversationMetrics.intent_strength = Finite 0,
      ConversationMetrics.urgency_level = Finite 0,
      ConversationMetrics.sentiment_score = Finite 0,
      ConversationMetrics.question_count = 0,
      ConversationMetrics.response_time_avg = Finite 0,
      ConversationMetrics.conversation_length = 0\<rparr>"

subsection \<open>EnhancedLeadData\<close>

text \<open>
  A \<open>datetime\<close> is the instant it names, counted in microseconds; the naive UTC values
  that \<open>datetime.utcnow()\<close> returns are ordered as their instants are. The wall clock is
  the sequence of its successive readings: \<open>utcnow\<close> returns the next one. Nothing is
  assumed of the readings, a wall clock may be set back.
\<close>

type_synonym datetime = int

type_synonym clock = "nat \<Rightarrow> datetime"

definition utcnow :: "clock \<Rightarrow> nat \<Rightarrow> datetime \<times> nat" where
  "utcnow clk n = (clk n, Suc n)"

text \<open>
  The fields \<open>id\<close> and \<open>notes\<close> of the source are \<open>lead_id\<close> and \<open>lead_notes\<close> here.
\<close>

record EnhancedLeadData =
  lead_id :: "string option"
  conversation_id :: string
  chatbot_id :: string
  contact_info :: ContactInfo
  qualification_data :: QualificationData
  conversation_metrics :: ConversationMetrics
  collection_strategy :: CollectionStrategy
  lead_score :: pyfloat
  priority :: LeadPriority
  status :: LeadStatus
  qualification_stage :: QualificationStage
  lead_analysis :: "LeadAnalysis option"
  created_at :: datetime
  updated_at :: datetime
  last_interaction :: "datetime option"
  source :: string
  tags :: "string list"
  lead_notes :: "string list"

record EnhancedLeadData_kw =
  lead_id :: "string option"
  conversation_id :: "string option"
  chatbot_id :: "string option"
  contact_info :: "ContactInfo option"
  qualification_data :: "QualificationData option"
  conversation_metrics :: "ConversationMetrics option"
  collection_strategy :: "CollectionStrategy option"
  lead_score :: "pyfloat option"
  priority :: "LeadPriority option"
  status :: "LeadStatus option"
  qualification_stage :: "QualificationStage option"
  lead_analysis :: "LeadAnalysis option"
  created_at :: "datetime option"
  updated_at :: "datetime option"
  last_interaction :: "datetime option"
  source :: "string option"
  tags :: "string list option"
  lead_notes :: "string list option"

text \<open>
  \<^verbatim>\<open>
  @validator('lead_score')
  def validate_lead_score(cls, v):
      return max(0.0, min(100.0, v))

  @validator('updated_at', always=True)
  def set_updated_at(cls, v):
      return datetime.utcnow()
  \<close>
\<close>

definition validate_lead_score :: "pyfloat \<Rightarrow> pyfloat" where
  "validate_lead_score v = py_max (Finite 0) (py_min (Finite 100) v)"

definition set_updated_at :: "clock \<Rightarrow> nat \<Rightarrow> datetime \<Rightarrow> datetime \<times> nat" where
  "set_updated_at clk n v = utcnow clk n"

text \<open>
  The validation of the field \<open>lead_score = Field(0.0, ge=0.0, le=100.0)\<close>: the default
  when it is left out, else the bounds and then the validator.
\<close>

definition lead_score_field :: "pyfloat option \<Rightarrow> pyfloat validated" where
  "lead_score_field arg =
     with_default (Finite 0)
       (\<lambda>v. and_then (number_size_validator (Some (Finite 0)) (Some (Finite 100)) v)
              (\<lambda>w. Inr (validate_lead_score w)))
       arg"

text \<open>
  The constructor, started when the clock has been read \<open>n\<close> times; it returns the
  outcome and the number of readings afterwards. \<open>created_at\<close> reads the clock when it is
  left out; \<open>updated_at\<close> does so too, and its validator, being \<open>always\<close>, runs on the
  supplied value and on the default alike.
\<close>

definition EnhancedLeadData_init ::
  "clock \<Rightarrow> nat \<Rightarrow> EnhancedLeadData_kw \<Rightarrow> (ValidationError + EnhancedLeadData) \<times> nat" where
  "EnhancedLeadData_init clk n kw =
     (let conversation = required Inr (EnhancedLeadData_kw.conversation_id kw);
          chatbot = required Inr (EnhancedLeadData_kw.chatbot_id kw);
          score = lead_score_field (EnhancedLeadData_kw.lead_score kw);
          (created, n1) = (case EnhancedLeadData_kw.created_at kw of
                             None \<Rightarrow> utcnow clk n | Some t \<Rightarrow> (t, n));
          (supplied, n2) = (case EnhancedLeadData_kw.updated_at kw of
                             None \<Rightarrow> utcnow clk n1 | Some t \<Rightarrow> (t, n1));
          (updated, n3) = set_updated_at clk n2 supplied;
          errors = errors_at ''conversation_id'' conversation
            @ errors_at ''chatbot_id'' chatbot
            @ errors_at ''lead_score'' score
      in (if errors = []
          then Inr \<lparr>EnhancedLeadData.lead_id = EnhancedLeadData_kw.lead_id kw,
                    EnhancedLeadData.conversation_id = valid conversation,
                    EnhancedLeadData.chatbot_id = valid chatbot,
                    EnhancedLeadData.contact_info =
                      (case EnhancedLeadData_kw.contact_info kw of
                         None \<Rightarrow> ContactInfo_default | Some c \<Rightarrow> c),
                    EnhancedLeadData.qualification_data =
                      (case EnhancedLeadData_kw.qualification_data kw of
                         None \<Rightarrow> QualificationData_default | Some q \<Rightarrow> q),
                    EnhancedLeadData.conversation_metrics =
                      (case EnhancedLeadData_kw.conversation_metrics kw of
                         None \<Rightarrow> ConversationMetrics_default | Some m \<Rightarrow> m),
                    EnhancedLeadData.collection_strategy =
                      (case EnhancedLeadData_kw.collection_strategy kw of
                         None \<Rightarrow> CONVERSATIONAL | Some c \<Rightarrow> c),
                    EnhancedLeadData.lead_score = valid score,
                    EnhancedLeadData.priority =
                      (case EnhancedLeadData_kw.priority kw of None \<Rightarrow> LOW | Some p \<Rightarrow> p),
                    EnhancedLeadData.status =
                      (case EnhancedLeadData_kw.status kw of None \<Rightarrow> NEW | Some s \<Rightarrow> s),
                    EnhancedLeadData.qualification_stage =
                      (case EnhancedLeadData_kw.qualification_stage kw of
                         None \<Rightarrow> INITIAL_INTEREST | Some s \<Rightarrow> s),
                    EnhancedLeadData.lead_analysis = EnhancedLeadData_kw.lead_analysis kw,
                    EnhancedLeadData.created_at = created,
                    EnhancedLeadData.updated_at = updated,
                    EnhancedLeadData.last_interaction = EnhancedLeadData_kw.last_interaction kw,
                    EnhancedLeadData.source =
                      (case EnhancedLeadData_kw.source kw of None \<Rightarrow> ''chatbot'' | Some s \<Rightarrow> s),
                    EnhancedLeadData.tags =
                      (case EnhancedLeadData_kw.tags kw of None \<Rightarrow> [] | Some t \<Rightarrow> t),
                    EnhancedLeadData.lead_notes =
                      (case EnhancedLeadData_kw.lead_notes kw of None \<Rightarrow> [] | Some t \<Rightarrow> t)\<rparr>
          else Inl errors,
          n3))"

subsection \<open>LeadScoringFactors\<close>

record LeadScoringFactors =
  engagement_factor :: pyfloat
  intent_factor :: pyfloat
  qualification_factor :: pyfloat
  urgency_factor :: pyfloat
  fit_factor :: pyfloat

record LeadScoringFactors_kw =
  engagement_factor :: "pyfloat option"
  intent_factor :: "pyfloat option"
  qualification_factor :: "pyfloat option"
  urgency_factor :: "pyfloat option"
  fit_factor :: "pyfloat option"

text \<open>Each weight is \<open>Field(0.0)\<close>: a default and no constraint.\<close>

definition LeadScoringFactors_init ::
  "LeadScoringFactors_kw \<Rightarrow> ValidationError + LeadScoringFactors" where
  "LeadScoringFactors_init kw =
     (let engagement = with_default (Finite 0) Inr (LeadScoringFactors_kw.engagement_factor kw);
          intent = with_default (Finite 0) Inr (LeadScoringFactors_kw.intent_factor kw);
          qualification =
            with_default (Finite 0) Inr (LeadScoringFactors_kw.qualification_factor kw);
          urgency = with_default (Finite 0) Inr (LeadScoringFactors_kw.urgency_factor kw);
          fit = with_default (Finite 0) Inr (LeadScoringFactors_kw.fit_factor kw);
          errors = errors_at ''engagement_factor'' engagement
            @ errors_at ''intent_factor'' intent
            @ errors_at ''qualification_factor'' qualification
            @ errors_at ''urgency_factor'' urgency
            @ errors_at ''fit_factor'' fit
      in if errors = []
         then Inr \<lparr>LeadScoringFactors.engagement_factor = valid engagement,
                   LeadScoringFactors.intent_factor = valid intent,
                   LeadScoringFactors.qualification_factor = valid qualification,
                   LeadScoringFactors.urgency_factor = valid urgency,
                   LeadScoringFactors.fit_factor = valid fit\<rparr>
         else Inl errors)"

section \<open>Models of \<open>app/models/lead.py\<close>\<close>

text \<open>
  \<open>lead.py\<close> declares a \<open>LeadPriority\<close> of its own with the same four members; the one
  datatype above stands for both.
\<close>

datatype LeadType =
    DEMO_REQUEST
  | ENTERPRISE_INQUIRY
  | BULK_ORDER
  | PRICING_INQUIRY
  | SUPPORT_ESCALATION
  | FEATURE_REQUEST
  | GENERAL_INQUIRY

subsection \<open>ConversationContextRequest\<close>

record ConversationContextRequest =
  message_count :: int
  conversation_length :: int
  engagement_score :: pyfloat
  sentiment_history :: "pyfloat list"
  previous_intents :: "string list"

record ConversationContextRequest_kw =
  message_count :: "int option"
  conversation_length :: "int option"
  engagement_score :: "pyfloat option"
  sentiment_history :: "pyfloat list option"
  previous_intents :: "string list option"

text \<open>
  \<^verbatim>\<open>
  @validator('sentiment_history')
  def validate_sentiment_history(cls, v):
      for score in v:
          if not -1.0 <= score <= 1.0:
              raise ValueError('Sentiment scores must be between -1.0 and 1.0')
      return v
  \<close>
  The loop is \<open>sentiment_loop\<close>: the error of the first score out of range, if any.
\<close>

fun sentiment_loop :: "pyfloat list \<Rightarrow> error_kind option" where
  "sentiment_loop [] = None"
| "sentiment_loop (score # rest) =
     (if \<not> between (Finite (- 1)) score (Finite 1)
      then Some (ValueError ''Sentiment scores must be between -1.0 and 1.0'')
      else sentiment_loop rest)"

definition validate_sentiment_history :: "pyfloat list \<Rightarrow> pyfloat list validated" where
  "validate_sentiment_history v =
     (case sentiment_loop v of Some e \<Rightarrow> Inl e | None \<Rightarrow> Inr v)"

definition ConversationContextRequest_init ::
  "ConversationContextRequest_kw \<Rightarrow> ValidationError + ConversationContextRequest" where
  "ConversationContextRequest_init kw =
     (let messages = required (int_size_validator (Some 0) None)
            (ConversationContextRequest_kw.message_count kw);
          chars = required (int_size_validator (Some 0) None)
            (ConversationContextRequest_kw.conversation_length kw);
          engagement = with_default (Finite (1 / 2))
            (number_size_validator (Some (Finite 0)) (Some (Finite 1)))
            (ConversationContextRequest_kw.engagement_score kw);
          sentiments = with_default [] validate_sentiment_history
            (ConversationContextRequest_kw.sentiment_history kw);
          intents = with_default [] Inr (ConversationContextRequest_kw.previous_intents kw);
          errors = errors_at ''message_count'' messages
            @ errors_at ''conversation_length'' chars
            @ errors_at ''engagement_score'' engagement
            @ errors_at ''sentiment_history'' sentiments
            @ errors_at ''previous_intents'' intents
      in if errors = []
         then Inr \<lparr>ConversationContextRequest.message_count = valid messages,
                   ConversationContextRequest.conversation_length = valid chars,
                   ConversationContextRequest.engagement_score = valid engagement,
                   ConversationContextRequest.sentiment_history = valid sentiments,
                   ConversationContextRequest.previous_intents = valid intents\<rparr>
         else Inl errors)"

subsection \<open>LeadAnalysisRequest\<close>

record LeadAnalysisRequest =
  message :: string
  conversation_context :: "ConversationContextRequest option"

record LeadAnalysisRequest_kw =
  message :: "string option"
  conversation_context :: "ConversationContextRequest option"

text \<open>
  \<^verbatim>\<open>
  @validator('message')
  def validate_message(cls, v):
      if not v or not v.strip():
          raise ValueError('Message cannot be empty')
      return v.strip()
  \<close>
\<close>

definition validate_message :: "string \<Rightarrow> string validated" where
  "validate_message v =
     (if v = [] \<or> strip v = [] then Inl (ValueError ''Message cannot be empty'')
      else Inr (strip v))"

text \<open>
  The validation of \<open>message = Field(..., min_length=1, max_length=2000)\<close>: required,
  the length check on the string as supplied, then the validator.
\<close>

definition message_field :: "string option \<Rightarrow> string validated" where
  "message_field arg =
     required (\<lambda>v. and_then (constr_length_validator 1 (Some 2000) v) validate_message) arg"

definition LeadAnalysisRequest_init ::
  "LeadAnalysisRequest_kw \<Rightarrow> ValidationError + LeadAnalysisRequest" where
  "LeadAnalysisRequest_init kw =
     (let msg = message_field (LeadAnalysisRequest_kw.message kw);
          errors = errors_at ''message'' msg
      in if errors = []
         then Inr \<lparr>LeadAnalysisRequest.message = valid msg,
                   LeadAnalysisRequest.conversation_context =
                     LeadAnalysisRequest_kw.conversation_context kw\<rparr>
         else Inl errors)"

subsection \<open>LeadScoreResponse\<close>

text \<open>
  A \<open>Dict[str, float]\<close> is a map from strings to floats; the values of a
  \<open>Dict[str, Any]\<close> are of a type \<open>'any\<close> that is left open.
\<close>

record 'any LeadScoreResponse =
  total_score :: pyfloat
  priority :: LeadPriority
  lead_type :: LeadType
  confidence :: pyfloat
  should_qualify :: bool
  factors :: "string \<rightharpoonup> pyfloat"
  extracted_data :: "string \<rightharpoonup> 'any"
  crm_mapping :: "string \<rightharpoonup> 'any"
  analyzed_at :: string

record 'any LeadScoreResponse_kw =
  total_score :: "pyfloat option"
  priority :: "LeadPriority option"
  lead_type :: "LeadType option"
  confidence :: "pyfloat option"
  should_qualify :: "bool option"
  factors :: "(string \<rightharpoonup> pyfloat) option"
  extracted_data :: "(string \<rightharpoonup> 'any) option"
  crm_mapping :: "(string \<rightharpoonup> 'any) option"
  analyzed_at :: "string option"

definition LeadScoreResponse_init ::
  "'any LeadScoreResponse_kw \<Rightarrow> ValidationError + 'any LeadScoreResponse" where
  "LeadScoreResponse_init kw =
     (let total = required (number_size_validator (Some (Finite 0)) (Some (Finite 1)))
            (LeadScoreResponse_kw.total_score kw);
          prio = required Inr (LeadScoreResponse_kw.priority kw);
          kind = required Inr (LeadScoreResponse_kw.lead_type kw);
          conf = required (number_size_validator (Some (Finite 0)) (Some (Finite 1)))
            (LeadScoreResponse_kw.confidence kw);
          qualify = required Inr (LeadScoreResponse_kw.should_qualify kw);
          facts = required Inr (LeadScoreResponse_kw.factors kw);
          extracted = required Inr (LeadScoreResponse_kw.extracted_data kw);
          mapping = required Inr (LeadScoreResponse_kw.crm_mapping kw);
          analyzed = required Inr (LeadScoreResponse_kw.analyzed_at kw);
          errors = errors_at ''total_score'' total
            @ errors_at ''priority'' prio
            @ errors_at ''lead_type'' kind
            @ errors_at ''confidence'' conf
            @ errors_at ''should_qualify'' qualify
            @ errors_at ''factors'' facts
            @ errors_at ''extracted_data'' extracted
            @ errors_at ''crm_mapping'' mapping
            @ errors_at ''analyzed_at'' analyzed
      in if errors = []
         then Inr \<lparr>LeadScoreResponse.total_score = valid total,
                   LeadScoreResponse.priority = valid prio,
                   LeadScoreResponse.lead_type = valid kind,
                   LeadScoreResponse.confidence = valid conf,
                   LeadScoreResponse.should_qualify = valid qualify,
                   LeadScoreResponse.factors = valid facts,
                   LeadScoreResponse.extracted_data = valid extracted,
                   LeadScoreResponse.crm_mapping = valid mapping,
                   LeadScoreResponse.analyzed_at = valid analyzed\<rparr>
         else Inl errors)"

subsection \<open>CRMLeadData\<close>

record CRMLeadData =
  lead_source :: string
  lead_score :: pyfloat
  lead_priority :: LeadPriority
  lead_type :: LeadType
  confidence :: pyfloat
  email :: "string option"
  phone :: "string option"
  name :: "string option"
  company :: "string option"
  original_message :: string
  follow_up_action :: "string option"
  qualification_date :: string
  demo_requested :: bool
  enterprise_inquiry :: bool
  bulk_order_inquiry :: bool
  scoring_factors :: "string \<rightharpoonup> pyfloat"
  conversation_id :: string
  chatbot_id :: "string option"

record CRMLeadData_kw =
  lead_source :: "string option"
  lead_score :: "pyfloat option"
  lead_priority :: "LeadPriority option"
  lead_type :: "LeadType option"
  confidence :: "pyfloat option"
  email :: "string option"
  phone :: "string option"
  name :: "string option"
  company :: "string option"
  original_message :: "string option"
  follow_up_action :: "string option"
  qualification_date :: "string option"
  demo_requested :: "bool option"
  enterprise_inquiry :: "bool option"
  bulk_order_inquiry :: "bool option"
  scoring_factors :: "(string \<rightharpoonup> pyfloat) option"
  conversation_id :: "string option"
  chatbot_id :: "string option"

text \<open>
  \<^verbatim>\<open>
  @validator('email')
  def validate_email(cls, v):
      if v is not None and v.strip():
          if '@' not in v:
              raise ValueError('Invalid email format')
          return v.strip().lower()
      return v

  @validator('phone')
  def validate_phone(cls, v):
      if v is not None and v.strip():
          digits = ''.join(filter(str.isdigit, v))
          if len(digits) < 10:
              raise ValueError('Phone number must have at least 10 digits')
          return v.strip()
      return v
  \<close>
  A string is true in a condition when it is not empty.
\<close>

definition validate_email :: "string option \<Rightarrow> string option validated" where
  "validate_email v =
     (case v of
        Some s \<Rightarrow>
          if strip s \<noteq> [] then
            (if CHR ''@'' \<notin> set s then Inl (ValueError ''Invalid email format'')
             else Inr (Some (lower (strip s))))
          else Inr v
      | None \<Rightarrow> Inr v)"

definition validate_phone :: "string option \<Rightarrow> string option validated" where
  "validate_phone v =
     (case v of
        Some s \<Rightarrow>
          if strip s \<noteq> [] then
            (let digits = filter isdigit s in
             if length digits < 10
             then Inl (ValueError ''Phone number must have at least 10 digits'')
             else Inr (Some (strip s)))
          else Inr v
      | None \<Rightarrow> Inr v)"

text \<open>
  \<open>email\<close> and \<open>phone\<close> are \<open>Optional[str]\<close> with default \<open>None\<close>: left out, the field
  is \<open>None\<close> and the validator does not run; supplied, \<open>None\<close> included, the validator
  runs, and returns \<open>None\<close> for \<open>None\<close>. Both ways are the validator applied to the
  argument.
\<close>

definition CRMLeadData_init :: "CRMLeadData_kw \<Rightarrow> ValidationError + CRMLeadData" where
  "CRMLeadData_init kw =
     (let src = with_default ''chatbot'' Inr (CRMLeadData_kw.lead_source kw);
          score = required (number_size_validator (Some (Finite 0)) (Some (Finite 1)))
            (CRMLeadData_kw.lead_score kw);
          prio = required Inr (CRMLeadData_kw.lead_priority kw);
          kind = required Inr (CRMLeadData_kw.lead_type kw);
          conf = required (number_size_validator (Some (Finite 0)) (Some (Finite 1)))
            (CRMLeadData_kw.confidence kw);
          mail = validate_email (CRMLeadData_kw.email kw);
          tel = validate_phone (CRMLeadData_kw.phone kw);
          original = required (constr_length_validator 0 (Some 500))
            (CRMLeadData_kw.original_message kw);
          qdate = required Inr (CRMLeadData_kw.qualification_date kw);
          demo = with_default False Inr (CRMLeadData_kw.demo_requested kw);
          enterprise = with_default False Inr (CRMLeadData_kw.enterprise_inquiry kw);
          bulk = with_default False Inr (CRMLeadData_kw.bulk_order_inquiry kw);
          scoring = required Inr (CRMLeadData_kw.scoring_factors kw);
          conversation = required Inr (CRMLeadData_kw.conversation_id kw);
          errors = errors_at ''lead_source'' src
            @ errors_at ''lead_score'' score
            @ errors_at ''lead_priority'' prio
            @ errors_at ''lead_type'' kind
            @ errors_at ''confidence'' conf
            @ errors_at ''email'' mail
            @ errors_at ''phone'' tel
            @ errors_at ''original_message'' original
            @ errors_at ''qualification_date'' qdate
            @ errors_at ''demo_requested'' demo
            @ errors_at ''enterprise_inquiry'' enterprise
            @ errors_at ''bulk_order_inquiry'' bulk
            @ errors_at ''scoring_factors'' scoring
            @ errors_at ''conversation_id'' conversation
      in if errors = []
         then Inr \<lparr>CRMLeadData.lead_source = valid src,
                   CRMLeadData.lead_score = valid score,
                   CRMLeadData.lead_priority = valid prio,
                   CRMLeadData.lead_type = valid kind,
                   CRMLeadData.confidence = valid conf,
                   CRMLeadData.email = valid mail,
                   CRMLeadData.phone = valid tel,
                   CRMLeadData.name = CRMLeadData_kw.name kw,
                   CRMLeadData.company = CRMLeadData_kw.company kw,
                   CRMLeadData.original_message = valid original,
                   CRMLeadData.follow_up_action = CRMLeadData_kw.follow_up_action kw,
                   CRMLeadData.qualification_date = valid qdate,
                   CRMLeadData.demo_requested = valid demo,
                   CRMLeadData.enterprise_inquiry = valid enterprise,
                   CRMLeadData.bulk_order_inquiry = valid bulk,
                   CRMLeadData.scoring_factors = valid scoring,
                   CRMLeadData.conversation_id = valid conversation,
                   CRMLeadData.chatbot_id = CRMLeadData_kw.chatbot_id kw\<rparr>
         else Inl errors)"

section \<open>The scoring engine\<close>

text \<open>
  The source files hold the data models only. The scoring pass and the qualification-stage
  machine that the specification describes over them are modelled from its text, in exact
  arithmetic on the reals.
\<close>

subsection \<open>Scoring aggregator\<close>

text \<open>
  Modelled from the spec: the errors of \<open>compute_score\<close>, which is not in the source
  files ("fails with InvalidWeightConfiguration when weights are negative or all-zero;
  fails with MissingMetrics when required metric fields are absent").
\<close>

datatype scoring_error = InvalidWeightConfiguration | MissingMetrics

text \<open>
  Modelled from the spec: the weights argument of \<open>compute_score\<close> ("named float
  weights (engagement, intent, qualification completeness, urgency, ICP fit)").
\<close>

record scoring_weights =
  engagement_weight :: real
  intent_weight :: real
  qualification_weight :: real
  urgency_weight :: real
  fit_weight :: real

text \<open>
  Modelled from the spec: the factors map that \<open>compute_score\<close> returns beside the
  score, one value per factor.
\<close>

record factor_values =
  engagement_value :: real
  intent_value :: real
  qualification_value :: real
  urgency_value :: real
  fit_value :: real

text \<open>
  Modelled from the spec: the parts of \<open>compute_score\<close> that the specification leaves
  to the implementer ("the source material does not specify exact saturation curves or
  exact keyword-matching algorithm for intent/urgency factors"), taken as parameters: the
  engagement, intent and urgency factors, and the fit against the ideal-customer-profile
  configuration, \<open>None\<close> when no profile is configured.
\<close>

record factor_curves =
  engagement_curve :: "ConversationMetrics \<Rightarrow> real"
  intent_curve :: "LeadSignals \<Rightarrow> real"
  urgency_curve :: "LeadSignals \<Rightarrow> real"
  fit_curve :: "(QualificationData \<Rightarrow> real) option"

text \<open>
  Modelled from the spec: when a BANT field counts as populated in the missing scoring
  code, namely when it is present and not empty.
\<close>

definition populated :: "string option \<Rightarrow> bool" where
  "populated f = (case f of None \<Rightarrow> False | Some s \<Rightarrow> s \<noteq> [])"

text \<open>
  Modelled from the spec: the qualification factor of \<open>compute_score\<close> ("fraction of
  BANT fields populated (budget, authority, need, timeline) - 0.25 per field present,
  each counted independently").
\<close>

definition bant_fraction :: "QualificationData \<Rightarrow> real" where
  "bant_fraction q =
     (if populated (QualificationData.budget q) then 1 / 4 else 0)
     + (if populated (QualificationData.authority q) then 1 / 4 else 0)
     + (if populated (QualificationData.need q) then 1 / 4 else 0)
     + (if populated (QualificationData.timeline q) then 1 / 4 else 0)"

text \<open>
  Modelled from the spec: the per-factor values of \<open>compute_score\<close> ("absent ICP
  config: factor defaults to neutral (0.5), not zero").
\<close>

definition factors_of ::
  "factor_curves \<Rightarrow> ConversationMetrics \<Rightarrow> LeadSignals \<Rightarrow> QualificationData \<Rightarrow> factor_values"
  where
  "factors_of curves metrics signals qualification =
     \<lparr>engagement_value = engagement_curve curves metrics,
      intent_value = intent_curve curves signals,
      qualification_value = bant_fraction qualification,
      urgency_value = urgency_curve curves signals,
      fit_value = (case fit_curve curves of None \<Rightarrow> 1 / 2 | Some fit \<Rightarrow> fit qualification)\<rparr>"

text \<open>
  Modelled from the spec: the weight check of \<open>compute_score\<close> ("weights are validated
  to be non-negative"; "fails with InvalidWeightConfiguration when weights are negative
  or all-zero").
\<close>

definition weight_list :: "scoring_weights \<Rightarrow> real list" where
  "weight_list w =
     [engagement_weight w, intent_weight w, qualification_weight w, urgency_weight w,
      fit_weight w]"

definition invalid_weights :: "scoring_weights \<Rightarrow> bool" where
  "invalid_weights w =
     (list_ex (\<lambda>x. x < 0) (weight_list w) \<or> list_all (\<lambda>x. x = 0) (weight_list w))"

text \<open>
  Modelled from the spec: the combination step of \<open>compute_score\<close> ("combined as a
  weighted sum ... normalized by dividing by the sum of active weights").
\<close>

definition weighted_sum :: "scoring_weights \<Rightarrow> factor_values \<Rightarrow> real" where
  "weighted_sum w f =
     engagement_weight w * engagement_value f
     + intent_weight w * intent_value f
     + qualification_weight w * qualification_value f
     + urgency_weight w * urgency_value f
     + fit_weight w * fit_value f"

definition normalized :: "scoring_weights \<Rightarrow> factor_values \<Rightarrow> real" where
  "normalized w f = weighted_sum w f / sum_list (weight_list w)"

text \<open>
  Modelled from the spec: the final clamp of \<open>compute_score\<close>
  ("\<open>max(0, min(100, value))\<close>").
\<close>

definition clamp_score :: "real \<Rightarrow> real" where
  "clamp_score x = max 0 (min 100 x)"

text \<open>
  Modelled from the spec: \<open>compute_score(metrics, signals, qualification_data, weights)
  -> (score, factors)\<close>, which is not in the source files. Every metric field of a
  \<open>ConversationMetrics\<close> value is present, so \<open>MissingMetrics\<close> does not arise here.
\<close>

definition compute_score ::
  "factor_curves \<Rightarrow> ConversationMetrics \<Rightarrow> LeadSignals \<Rightarrow> QualificationData \<Rightarrow>
   scoring_weights \<Rightarrow> scoring_error + real \<times> factor_values" where
  "compute_score curves metrics signals qualification w =
     (if invalid_weights w then Inl InvalidWeightConfiguration
      else let f = factors_of curves metrics signals qualification
           in Inr (clamp_score (100 * normalized w f), f))"

subsection \<open>Qualification-stage state machine\<close>

text \<open>
  Modelled from the spec: the order of the stages of the missing stage machine
  ("INITIAL_INTEREST -> NEED_ASSESSMENT -> BUDGET_QUALIFICATION -> AUTHORITY_VERIFICATION
  -> TIMELINE_DISCUSSION -> QUALIFIED"), with \<open>DISQUALIFIED\<close> last.
\<close>

fun stage_rank :: "QualificationStage \<Rightarrow> nat" where
  "stage_rank INITIAL_INTEREST = 0"
| "stage_rank NEED_ASSESSMENT = 1"
| "stage_rank BUDGET_QUALIFICATION = 2"
| "stage_rank AUTHORITY_VERIFICATION = 3"
| "stage_rank TIMELINE_DISCUSSION = 4"
| "stage_rank QUALIFIED = 5"
| "stage_rank DISQUALIFIED = 6"

text \<open>
  Modelled from the spec: the stage that follows a stage in the missing stage machine
  ("advance one stage"); the terminal stages have none and map to themselves.
\<close>

fun next_stage :: "QualificationStage \<Rightarrow> QualificationStage" where
  "next_stage INITIAL_INTEREST = NEED_ASSESSMENT"
| "next_stage NEED_ASSESSMENT = BUDGET_QUALIFICATION"
| "next_stage BUDGET_QUALIFICATION = AUTHORITY_VERIFICATION"
| "next_stage AUTHORITY_VERIFICATION = TIMELINE_DISCUSSION"
| "next_stage TIMELINE_DISCUSSION = QUALIFIED"
| "next_stage QUALIFIED = QUALIFIED"
| "next_stage DISQUALIFIED = DISQUALIFIED"

text \<open>
  Modelled from the spec: the terminal stages of the missing stage machine ("QUALIFIED
  and DISQUALIFIED are terminal").
\<close>

definition terminal :: "QualificationStage \<Rightarrow> bool" where
  "terminal s = (s = QUALIFIED \<or> s = DISQUALIFIED)"

text \<open>
  Modelled from the spec: the external configuration of the missing stage machine: the
  BANT field that corresponds to a stage, the stage-specific score thresholds, the number
  of consecutive observations of a declining trend, and the low-score floor.
\<close>

record stage_config =
  bant_field :: "QualificationStage \<Rightarrow> QualificationData \<Rightarrow> string option"
  stage_threshold :: "QualificationStage \<Rightarrow> real"
  decline_passes :: nat
  low_score_floor :: real

text \<open>
  Modelled from the spec: what one scoring pass hands to the missing stage machine: the
  qualification data, the aggregate score, and whether an explicit disqualifying signal is
  present in the signals.
\<close>

record scoring_pass =
  pass_qualification :: QualificationData
  pass_score :: real
  disqualifying_signal :: bool

text \<open>
  Modelled from the spec: the state of a lead in the missing stage machine: its stage and
  the scores observed so far, the latest first.
\<close>

record lead_state =
  stage :: QualificationStage
  observed_scores :: "real list"

text \<open>
  Modelled from the spec: a strictly decreasing run of observations in the missing stage
  machine; the list holds the latest score first, so each score is below the one after it.
\<close>

fun strictly_declining :: "real list \<Rightarrow> bool" where
  "strictly_declining (x # y # rest) = (x < y \<and> strictly_declining (y # rest))"
| "strictly_declining rest = True"

text \<open>
  Modelled from the spec: the declining-trend trigger of the missing stage machine
  ("strictly decreasing over N consecutive observations, below a low-score floor"; in the
  specification's example the scores 40, 30, 20 with floor 25 disqualify on the third
  pass, so the floor bounds the latest score).
\<close>

definition declining_trend :: "stage_config \<Rightarrow> real list \<Rightarrow> bool" where
  "declining_trend cfg scores =
     (case scores of
        [] \<Rightarrow> False
      | latest # earlier \<Rightarrow>
          decline_passes cfg \<le> length scores
          \<and> strictly_declining (take (decline_passes cfg) scores)
          \<and> latest < low_score_floor cfg)"

text \<open>
  Modelled from the spec: one transition of the missing stage machine. A terminal stage
  stays; otherwise the disqualification rule applies first, then the advance rule
  ("advance one stage when the corresponding BANT field in QualificationData becomes
  non-empty AND the aggregate score exceeds a stage-specific threshold").
\<close>

definition stage_step :: "stage_config \<Rightarrow> lead_state \<Rightarrow> scoring_pass \<Rightarrow> lead_state" where
  "stage_step cfg st p =
     (let scores = pass_score p # observed_scores st
      in \<lparr>stage =
            (if terminal (stage st) then stage st
             else if disqualifying_signal p \<or> declining_trend cfg scores then DISQUALIFIED
             else if populated (bant_field cfg (stage st) (pass_qualification p))
                     \<and> stage_threshold cfg (stage st) < pass_score p
               then next_stage (stage st)
             else stage st),
          observed_scores = scores\<rparr>)"

text \<open>
  Modelled from the spec: a sequence of scoring passes through the missing stage machine,
  one transition per pass.
\<close>

fun stage_run :: "stage_config \<Rightarrow> lead_state \<Rightarrow> scoring_pass list \<Rightarrow> lead_state" where
  "stage_run cfg st [] = st"
| "stage_run cfg st (p # ps) = stage_run cfg (stage_step cfg st p) ps"

section \<open>Example inputs\<close>

text \<open>
  The keyword arguments of a minimal \<open>EnhancedLeadData\<close>: the two required identifiers
  and nothing else.
\<close>

definition example_lead_kw :: EnhancedLeadData_kw where
  "example_lead_kw =
     \<lparr>EnhancedLeadData_kw.lead_id = None,
      EnhancedLeadData_kw.conversation_id = Some ''conv-1'',
      EnhancedLeadData_kw.chatbot_id = Some ''bot-1'',
      EnhancedLeadData_kw.contact_info = None,
      EnhancedLeadData_kw.qualification_data = None,
      EnhancedLeadData_kw.conversation_metrics = None,
      EnhancedLeadData_kw.collection_strategy = None,
      EnhancedLeadData_kw.lead_score = None,
      EnhancedLeadData_kw.priority = None,
      EnhancedLeadData_kw.status = None,
      EnhancedLeadData_kw.qualification_stage = None,
      EnhancedLeadData_kw.lead_analysis = None,
      EnhancedLeadData_kw.created_at = None,
      EnhancedLeadData_kw.updated_at = None,
      EnhancedLeadData_kw.last_interaction = None,
      EnhancedLeadData_kw.source = None,
      EnhancedLeadData_kw.tags = None,
      EnhancedLeadData_kw.lead_notes = None\<rparr>"

text \<open>
  The keyword arguments of a \<open>CRMLeadData\<close>, after the example of its schema, with an
  email that needs stripping and lowering, and the model they construct.
\<close>

definition example_crm_kw :: CRMLeadData_kw where
  "example_crm_kw =
     \<lparr>CRMLeadData_kw.lead_source = None,
      CRMLeadData_kw.lead_score = Some (Finite 0.75),
      CRMLeadData_kw.lead_priority = Some HIGH,
      CRMLeadData_kw.lead_type = Some DEMO_REQUEST,
      CRMLeadData_kw.confidence = Some (Finite 0.82),
      CRMLeadData_kw.email = Some '' A@b.C '',
      CRMLeadData_kw.phone = None,
      CRMLeadData_kw.name = Some ''John Doe'',
      CRMLeadData_kw.company = None,
      CRMLeadData_kw.original_message = Some ''demo please'',
      CRMLeadData_kw.follow_up_action = None,
      CRMLeadData_kw.qualification_date = Some ''2024-01-15'',
      CRMLeadData_kw.demo_requested = Some True,
      CRMLeadData_kw.enterprise_inquiry = None,
      CRMLeadData_kw.bulk_order_inquiry = None,
      CRMLeadData_kw.scoring_factors = Some Map.empty,
      CRMLeadData_kw.conversation_id = Some ''conv-1'',
      CRMLeadData_kw.chatbot_id = None\<rparr>"

definition example_crm :: CRMLeadData where
  "example_crm =
     \<lparr>CRMLeadData.lead_source = ''chatbot'',
      CRMLeadData.lead_score = Finite 0.75,
      CRMLeadData.lead_priority = HIGH,
      CRMLeadData.lead_type = DEMO_REQUEST,
      CRMLeadData.confidence = Finite 0.82,
      CRMLeadData.email = Some ''a@b.c'',
      CRMLeadData.phone = None,
      CRMLeadData.name = Some ''John Doe'',
      CRMLeadData.company = None,
      CRMLeadData.original_message = ''demo please'',
      CRMLeadData.follow_up_action = None,
      CRMLeadData.qualification_date = ''2024-01-15'',
      CRMLeadData.demo_requested = True,
      CRMLeadData.enterprise_inquiry = False,
      CRMLeadData.bulk_order_inquiry = False,
      CRMLeadData.scoring_factors = Map.empty,
      CRMLeadData.conversation_id = ''conv-1'',
      CRMLeadData.chatbot_id = None\<rparr>"

text \<open>
  The keyword arguments of a \<open>LeadScoreResponse\<close>, after the example of its schema, and
  the model they construct.
\<close>

definition example_response_kw :: "unit LeadScoreResponse_kw" where
  "example_response_kw =
     \<lparr>LeadScoreResponse_kw.total_score = Some (Finite 0.75),
      LeadScoreResponse_kw.priority = Some HIGH,
      LeadScoreResponse_kw.lead_type = Some DEMO_REQUEST,
      LeadScoreResponse_kw.confidence = Some (Finite 0.82),
      LeadScoreResponse_kw.should_qualify = Some True,
      LeadScoreResponse_kw.factors = Some Map.empty,
      LeadScoreResponse_kw.extracted_data = Some Map.empty,
      LeadScoreResponse_kw.crm_mapping = Some Map.empty,
      LeadScoreResponse_kw.analyzed_at = Some ''2024-01-15T10:30:00Z''\<rparr>"

definition example_response :: "unit LeadScoreResponse" where
  "example_response =
     \<lparr>LeadScoreResponse.total_score = Finite 0.75,
      LeadScoreResponse.priority = HIGH,
      LeadScoreResponse.lead_type = DEMO_REQUEST,
      LeadScoreResponse.confidence = Finite 0.82,
      LeadScoreResponse.should_qualify = True,
      LeadScoreResponse.factors = Map.empty,
      LeadScoreResponse.extracted_data = Map.empty,
      LeadScoreResponse.crm_mapping = Map.empty,
      LeadScoreResponse.analyzed_at = ''2024-01-15T10:30:00Z''\<rparr>"

text \<open>
  Modelled from the spec: the inputs of the specification's scoring example ("default
  weights {engagement:0.2, intent:0.3, qualification:0.3, urgency:0.1, fit:0.1}", factor
  values 0.8, 0.9 and 0.4, "budget+need filled", "no ICP config"), with constant curves
  standing in for the missing factor computations.
\<close>

definition example_weights :: scoring_weights where
  "example_weights =
     \<lparr>engagement_weight = 1 / 5, intent_weight = 3 / 10, qualification_weight = 3 / 10,
      urgency_weight = 1 / 10, fit_weight = 1 / 10\<rparr>"

text \<open>
  Modelled from the spec: constant factor curves for the scoring example, in place of the
  missing factor computations, and no ideal-customer profile.
\<close>

definition example_curves :: factor_curves where
  "example_curves =
     \<lparr>engagement_curve = (\<lambda>metrics. 4 / 5), intent_curve = (\<lambda>signals. 9 / 10),
      urgency_curve = (\<lambda>signals. 2 / 5), fit_curve = None\<rparr>"

text \<open>Qualification data with the budget and the need filled, and signals without keywords.\<close>

definition example_qualification :: QualificationData where
  "example_qualification =
     QualificationData_default
       \<lparr>QualificationData.budget := Some ''10k'', QualificationData.need := Some ''crm''\<rparr>"

definition example_signals :: LeadSignals where
  "example_signals =
     \<lparr>buying_intent_keywords = [], urgency_indicators = [], budget_mentions = [],
      authority_indicators = [], competitor_mentions = [], pain_point_expressions = [],
      timeline_mentions = []\<rparr>"

text \<open>
  Modelled from the spec: a configuration of the missing stage machine for the
  specification's disqualification example ("three consecutive declining scores (e.g.,
  40, 30, 20) below floor 25"): each stage's BANT field, thresholds rising by 10 per
  stage, three observations, floor 25.
\<close>

definition example_stage_config :: stage_config where
  "example_stage_config =
     \<lparr>bant_field = (\<lambda>s. if s = BUDGET_QUALIFICATION then QualificationData.budget
                        else if s = AUTHORITY_VERIFICATION then QualificationData.authority
                        else if s = TIMELINE_DISCUSSION then QualificationData.timeline
                        else QualificationData.need),
      stage_threshold = (\<lambda>s. 10 * real (stage_rank s)),
      decline_passes = 3,
      low_score_floor = 25\<rparr>"

text \<open>
  Modelled from the spec: a scoring pass of that example, with the example qualification
  data, a given score and no disqualifying signal.
\<close>

definition example_pass :: "real \<Rightarrow> scoring_pass" where
  "example_pass score =
     \<lparr>pass_qualification = example_qualification, pass_score = score,
      disqualifying_signal = False\<rparr>"

section \<open>Properties\<close>

subsection \<open>Rules of the validation framework\<close>

lemma errors_at_Inr: "errors_at loc (Inr v) = []"
  by (simp add: errors_at_def)

lemma errors_at_Inl: "errors_at loc (Inl e) = [(loc, e)]"
  by (simp add: errors_at_def)

lemma valid_Inr: "valid (Inr v) = v"
  by (simp add: valid_def)

lemma number_size_validator_both:
  "number_size_validator (Some lo) (Some hi) v =
     (if \<not> fle lo v then Inl NumberNotGeError
      else if \<not> fle v hi then Inl NumberNotLeError else Inr v)"
  by (simp add: number_size_validator_def)

lemma number_size_validator_ge:
  "number_size_validator (Some lo) None v =
     (if \<not> fle lo v then Inl NumberNotGeError else Inr v)"
  by (simp add: number_size_validator_def)

lemma int_size_validator_ge:
  "int_size_validator (Some lo) None v = (if \<not> lo \<le> v then Inl NumberNotGeError else Inr v)"
  by (simp add: int_size_validator_def)

lemma with_default_Some: "with_default d f (Some v) = f v"
  by (simp add: with_default_def)

lemma with_default_None: "with_default d f None = Inr d"
  by (simp add: with_default_def)

lemma required_Some: "required f (Some v) = f v"
  by (simp add: required_def)

lemma required_None: "required f None = Inl MissingError"
  by (simp add: required_def)

lemma and_then_Inr: "and_then (Inr v) f = f v"
  by (simp add: and_then_def)

lemma and_then_Inl: "and_then (Inl e) f = Inl e"
  by (simp add: and_then_def)

lemmas field_rules = errors_at_Inr errors_at_Inl valid_Inr number_size_validator_both
  number_size_validator_ge int_size_validator_ge with_default_Some with_default_None
  required_Some required_None and_then_Inr and_then_Inl

subsection \<open>ConversationMetrics\<close>

text \<open>
  Claim C4. Constructing a \<open>ConversationMetrics\<close> from seven supplied values succeeds
  exactly when engagement, intent strength and urgency lie in \<open>[0, 1]\<close>, sentiment in
  \<open>[-1, 1]\<close>, and question count, average response time and conversation length are not
  negative; the model built then holds every value as supplied. Otherwise construction
  fails with a non-empty list of errors.
\<close>

theorem ConversationMetrics_init_supplied:
  "(between (Finite 0) e (Finite 1) \<and> between (Finite 0) i (Finite 1)
      \<and> between (Finite 0) u (Finite 1) \<and> between (Finite (- 1)) s (Finite 1)
      \<and> 0 \<le> q \<and> fle (Finite 0) r \<and> 0 \<le> c
    \<longleftrightarrow>
    ConversationMetrics_init
       \<lparr>ConversationMetrics_kw.engagement_score = Some e,
        ConversationMetrics_kw.intent_strength = Some i,
        ConversationMetrics_kw.urgency_level = Some u,
        ConversationMetrics_kw.sentiment_score = Some s,
        ConversationMetrics_kw.question_count = Some q,
        ConversationMetrics_kw.response_time_avg = Some r,
        ConversationMetrics_kw.conversation_length = Some c\<rparr>
     = Inr \<lparr>ConversationMetrics.engagement_score = e,
            ConversationMetrics.intent_strength = i,
            ConversationMetrics.urgency_level = u,
            ConversationMetrics.sentiment_score = s,
            ConversationMetrics.question_count = q,
            ConversationMetrics.response_time_avg = r,
            ConversationMetrics.conversation_length = c\<rparr>)
   \<and>
   (\<not> (between (Finite 0) e (Finite 1) \<and> between (Finite 0) i (Finite 1)
      \<and> between (Finite 0) u (Finite 1) \<and> between (Finite (- 1)) s (Finite 1)
      \<and> 0 \<le> q \<and> fle (Finite 0) r \<and> 0 \<le> c)
    \<longleftrightarrow>
    (\<exists>errors. errors \<noteq> [] \<and>
      ConversationMetrics_init
       \<lparr>ConversationMetrics_kw.engagement_score = Some e,
        ConversationMetrics_kw.intent_strength = Some i,
        ConversationMetrics_kw.urgency_level = Some u,
        ConversationMetrics_kw.sentiment_score = Some s,
        ConversationMetrics_kw.question_count = Some q,
        ConversationMetrics_kw.response_time_avg = Some r,
        ConversationMetrics_kw.conversation_length = Some c\<rparr> = Inl errors))"
  unfolding ConversationMetrics_init_def Let_def
  by (simp add: field_rules)

theorem ConversationMetrics_init_supplied_witness:
  "ConversationMetrics_init
       \<lparr>ConversationMetrics_kw.engagement_score = Some (Finite 0.8),
        ConversationMetrics_kw.intent_strength = Some (Finite 0.9),
        ConversationMetrics_kw.urgency_level = Some (Finite 0.4),
        ConversationMetrics_kw.sentiment_score = Some (Finite 0.7),
        ConversationMetrics_kw.question_count = Some 3,
        ConversationMetrics_kw.response_time_avg = Some (Finite 2.5),
        ConversationMetrics_kw.conversation_length = Some 12\<rparr>
     = Inr \<lparr>ConversationMetrics.engagement_score = Finite 0.8,
            ConversationMetrics.intent_strength = Finite 0.9,
            ConversationMetrics.urgency_level = Finite 0.4,
            ConversationMetrics.sentiment_score = Finite 0.7,
            ConversationMetrics.question_count = 3,
            ConversationMetrics.response_time_avg = Finite 2.5,
            ConversationMetrics.conversation_length = 12\<rparr>
   \<and> (\<exists>errors. errors \<noteq> [] \<and>
      ConversationMetrics_init
       \<lparr>ConversationMetrics_kw.engagement_score = Some (Finite 0.8),
        ConversationMetrics_kw.intent_strength = Some (Finite 0.9),
        ConversationMetrics_kw.urgency_level = Some (Finite 0.4),
        ConversationMetrics_kw.sentiment_score = Some (Finite 0.7),
        ConversationMetrics_kw.question_count = Some (- 1),
        ConversationMetrics_kw.response_time_avg = Some (Finite 2.5),
        ConversationMetrics_kw.conversation_length = Some 12\<rparr> = Inl errors)"
  using ConversationMetrics_init_supplied
          [of "Finite 0.8" "Finite 0.9" "Finite 0.4" "Finite 0.7" 3 "Finite 2.5" 12]
        ConversationMetrics_init_supplied
          [of "Finite 0.8" "Finite 0.9" "Finite 0.4" "Finite 0.7" "- 1" "Finite 2.5" 12]
  by simp

subsection \<open>Sentiment\<close>

lemma sentiment_loop_None:
  "sentiment_loop h = None \<longleftrightarrow> (\<forall>x\<in>set h. between (Finite (- 1)) x (Finite 1))"
  by (induction h) auto

lemma sentiment_loop_Some:
  "sentiment_loop h = Some e \<Longrightarrow>
     e = ValueError ''Sentiment scores must be between -1.0 and 1.0''"
  by (induction h) (auto split: if_splits)

lemma validate_sentiment_history_eq:
  "validate_sentiment_history h =
     (if \<forall>x\<in>set h. between (Finite (- 1)) x (Finite 1) then Inr h
      else Inl (ValueError ''Sentiment scores must be between -1.0 and 1.0''))"
proof (cases "sentiment_loop h")
  case None
  then show ?thesis
    using sentiment_loop_None [of h] by (simp add: validate_sentiment_history_def)
next
  case (Some e)
  then have "\<not> (\<forall>x\<in>set h. between (Finite (- 1)) x (Finite 1))"
    using sentiment_loop_None [of h] by simp
  with Some sentiment_loop_Some [OF Some] show ?thesis
    by (simp add: validate_sentiment_history_def)
qed

text \<open>
  Claim C3. A sentiment outside \<open>[-1, 1]\<close> is rejected at the model boundary and never
  clamped: whatever the other arguments are, constructing a \<open>ConversationMetrics\<close> with
  such a \<open>sentiment_score\<close> fails with an error located at that field, and constructing a
  \<open>ConversationContextRequest\<close> whose \<open>sentiment_history\<close> has such an element fails
  with the validator's \<open>ValueError\<close> located at that field. Whenever either construction
  succeeds, the supplied sentiment values were in range and the model holds them
  unchanged.
\<close>

theorem sentiment_rejected_not_clamped:
  "(\<not> between (Finite (- 1)) s (Finite 1) \<longrightarrow>
      (\<exists>errors e.
          ConversationMetrics_init (kw\<lparr>ConversationMetrics_kw.sentiment_score := Some s\<rparr>)
            = Inl errors
          \<and> (''sentiment_score'', e) \<in> set errors))
   \<and> (ConversationMetrics_init (kw\<lparr>ConversationMetrics_kw.sentiment_score := Some s\<rparr>)
         = Inr m \<longrightarrow>
        between (Finite (- 1)) s (Finite 1) \<and> ConversationMetrics.sentiment_score m = s)
   \<and> ((\<exists>x\<in>set h. \<not> between (Finite (- 1)) x (Finite 1)) \<longrightarrow>
        (\<exists>errors. ConversationContextRequest_init
             (ckw\<lparr>ConversationContextRequest_kw.sentiment_history := Some h\<rparr>) = Inl errors
          \<and> (''sentiment_history'', ValueError ''Sentiment scores must be between -1.0 and 1.0'')
              \<in> set errors))
   \<and> (ConversationContextRequest_init
         (ckw\<lparr>ConversationContextRequest_kw.sentiment_history := Some h\<rparr>) = Inr c \<longrightarrow>
        (\<forall>x\<in>set h. between (Finite (- 1)) x (Finite 1))
        \<and> ConversationContextRequest.sentiment_history c = h)"
proof -
  let ?mkw = "kw\<lparr>ConversationMetrics_kw.sentiment_score := Some s\<rparr>"
  let ?ckw = "ckw\<lparr>ConversationContextRequest_kw.sentiment_history := Some h\<rparr>"
  let ?msg = "ValueError ''Sentiment scores must be between -1.0 and 1.0''"
  have a: "\<exists>errors e. ConversationMetrics_init ?mkw = Inl errors
      \<and> (''sentiment_score'', e) \<in> set errors"
    if "\<not> between (Finite (- 1)) s (Finite 1)"
    using that unfolding ConversationMetrics_init_def Let_def
    by (auto simp: field_rules)
  have b: "between (Finite (- 1)) s (Finite 1) \<and> ConversationMetrics.sentiment_score m = s"
    if "ConversationMetrics_init ?mkw = Inr m"
    using that unfolding ConversationMetrics_init_def Let_def
    by (auto simp: field_rules split: if_splits)
  have c: "\<exists>errors. ConversationContextRequest_init ?ckw = Inl errors
      \<and> (''sentiment_history'', ?msg) \<in> set errors"
    if "\<exists>x\<in>set h. \<not> between (Finite (- 1)) x (Finite 1)"
    using that unfolding ConversationContextRequest_init_def Let_def
    by (auto simp: field_rules validate_sentiment_history_eq)
  have d: "(\<forall>x\<in>set h. between (Finite (- 1)) x (Finite 1))
      \<and> ConversationContextRequest.sentiment_history c = h"
    if "ConversationContextRequest_init ?ckw = Inr c"
    using that unfolding ConversationContextRequest_init_def Let_def
    by (auto simp: field_rules validate_sentiment_history_eq split: if_splits)
  from a b c d show ?thesis by blast
qed

theorem sentiment_rejected_not_clamped_witness:
  "\<not> between (Finite (- 1)) (Finite 2) (Finite 1)
   \<and> (\<exists>errors e.
        ConversationMetrics_init
          \<lparr>ConversationMetrics_kw.engagement_score = None,
           ConversationMetrics_kw.intent_strength = None,
           ConversationMetrics_kw.urgency_level = None,
           ConversationMetrics_kw.sentiment_score = Some (Finite 2),
           ConversationMetrics_kw.question_count = None,
           ConversationMetrics_kw.response_time_avg = None,
           ConversationMetrics_kw.conversation_length = None\<rparr> = Inl errors
        \<and> (''sentiment_score'', e) \<in> set errors)
   \<and> ConversationMetrics_init
          \<lparr>ConversationMetrics_kw.engagement_score = None,
           ConversationMetrics_kw.intent_strength = None,
           ConversationMetrics_kw.urgency_level = None,
           ConversationMetrics_kw.sentiment_score = Some (Finite (- 0.5)),
           ConversationMetrics_kw.question_count = None,
           ConversationMetrics_kw.response_time_avg = None,
           ConversationMetrics_kw.conversation_length = None\<rparr>
       = Inr (ConversationMetrics_default
                \<lparr>ConversationMetrics.sentiment_score := Finite (- 0.5)\<rparr>)
   \<and> between (Finite (- 1)) (Finite (- 0.5)) (Finite 1)
   \<and> \<not> between (Finite (- 1)) (Finite (- 1.5)) (Finite 1)
   \<and> (\<exists>errors.
        ConversationContextRequest_init
          \<lparr>ConversationContextRequest_kw.message_count = Some 3,
           ConversationContextRequest_kw.conversation_length = Some 120,
           ConversationContextRequest_kw.engagement_score = None,
           ConversationContextRequest_kw.sentiment_history =
             Some [Finite 0.5, Finite (- 1.5)],
           ConversationContextRequest_kw.previous_intents = None\<rparr> = Inl errors
        \<and> (''sentiment_history'', ValueError ''Sentiment scores must be between -1.0 and 1.0'')
            \<in> set errors)
   \<and> ConversationContextRequest_init
          \<lparr>ConversationContextRequest_kw.message_count = Some 3,
           ConversationContextRequest_kw.conversation_length = Some 120,
           ConversationContextRequest_kw.engagement_score = None,
           ConversationContextRequest_kw.sentiment_history = Some [Finite 0.5, Finite (- 1)],
           ConversationContextRequest_kw.previous_intents = None\<rparr>
       = Inr \<lparr>ConversationContextRequest.message_count = 3,
              ConversationContextRequest.conversation_length = 120,
              ConversationContextRequest.engagement_score = Finite (1 / 2),
              ConversationContextRequest.sentiment_history = [Finite 0.5, Finite (- 1)],
              ConversationContextRequest.previous_intents = []\<rparr>"
proof -
  let ?mkw = "\<lparr>ConversationMetrics_kw.engagement_score = None,
           ConversationMetrics_kw.intent_strength = None,
           ConversationMetrics_kw.urgency_level = None,
           ConversationMetrics_kw.sentiment_score = None,
           ConversationMetrics_kw.question_count = None,
           ConversationMetrics_kw.response_time_avg = None,
           ConversationMetrics_kw.conversation_length = None\<rparr>"
  let ?ckw = "\<lparr>ConversationContextRequest_kw.message_count = Some 3,
           ConversationContextRequest_kw.conversation_length = Some 120,
           ConversationContextRequest_kw.engagement_score = None,
           ConversationContextRequest_kw.sentiment_history = None,
           ConversationContextRequest_kw.previous_intents = None\<rparr>"
  have ok1: "ConversationMetrics_init
      (?mkw\<lparr>ConversationMetrics_kw.sentiment_score := Some (Finite (- 0.5))\<rparr>)
      = Inr (ConversationMetrics_default
               \<lparr>ConversationMetrics.sentiment_score := Finite (- 0.5)\<rparr>)"
    by (simp add: ConversationMetrics_init_def ConversationMetrics_default_def field_rules)
  have ok2: "ConversationContextRequest_init
      (?ckw\<lparr>ConversationContextRequest_kw.sentiment_history :=
               Some [Finite 0.5, Finite (- 1)]\<rparr>)
      = Inr \<lparr>ConversationContextRequest.message_count = 3,
         ConversationContextRequest.conversation_length = 120,
         ConversationContextRequest.engagement_score = Finite (1 / 2),
         ConversationContextRequest.sentiment_history = [Finite 0.5, Finite (- 1)],
         ConversationContextRequest.previous_intents = []\<rparr>"
    by (simp add: ConversationContextRequest_init_def field_rules
        validate_sentiment_history_def)
  show ?thesis
    using sentiment_rejected_not_clamped
            [of "Finite 2" ?mkw _ "[Finite 0.5, Finite (- 1.5)]" ?ckw]
          sentiment_rejected_not_clamped
            [of "Finite (- 0.5)" ?mkw _ "[Finite 0.5, Finite (- 1)]" ?ckw]
          ok1 ok2
    by simp
qed

subsection \<open>EnhancedLeadData: the lead score\<close>

lemma validate_lead_score_in_range: "between (Finite 0) (validate_lead_score v) (Finite 100)"
  by (cases v) (auto simp: validate_lead_score_def py_max_def py_min_def)

lemma validate_lead_score_id:
  "between (Finite 0) v (Finite 100) \<Longrightarrow> validate_lead_score v = v"
  by (cases v) (auto simp: validate_lead_score_def py_max_def py_min_def)

lemma lead_score_field_Some:
  "lead_score_field (Some v) =
     (if \<not> fle (Finite 0) v then Inl NumberNotGeError
      else if \<not> fle v (Finite 100) then Inl NumberNotLeError
      else Inr v)"
  using validate_lead_score_id [of v]
  by (simp add: lead_score_field_def field_rules)

lemma lead_score_field_None: "lead_score_field None = Inr (Finite 0)"
  by (simp add: lead_score_field_def field_rules)

lemma lead_score_field_Inr:
  "lead_score_field arg = Inr w \<Longrightarrow> between (Finite 0) w (Finite 100)"
  by (cases arg) (auto simp: lead_score_field_Some lead_score_field_None split: if_splits)

lemma EnhancedLeadData_init_lead_score:
  assumes "EnhancedLeadData_init clk n kw = (Inr d, n')"
  shows "lead_score_field (EnhancedLeadData_kw.lead_score kw) = Inr (EnhancedLeadData.lead_score d)"
  using assms unfolding EnhancedLeadData_init_def Let_def
  by (cases "lead_score_field (EnhancedLeadData_kw.lead_score kw)")
     (auto simp: field_rules split: prod.splits if_splits)

lemma EnhancedLeadData_init_lead_score_error:
  assumes "lead_score_field (EnhancedLeadData_kw.lead_score kw) = Inl e"
  shows "\<exists>errors. fst (EnhancedLeadData_init clk n kw) = Inl errors \<and> (''lead_score'', e) \<in> set errors"
  using assms unfolding EnhancedLeadData_init_def Let_def
  by (auto simp: field_rules split: prod.splits)

lemmas init_eval = EnhancedLeadData_init_def example_lead_kw_def lead_score_field_Some
  lead_score_field_None field_rules utcnow_def set_updated_at_def

text \<open>
  What construction does with a lead score. A supplied score is accepted exactly when it
  lies in \<open>[0, 100]\<close> and is then stored as it is; any other value, NaN included, fails
  the bounds of the field with an error at \<open>lead_score\<close>, before the validator is
  reached. So the validator only ever receives values on which its clamp
  \<open>max(0.0, min(100.0, v))\<close> is the identity. Taken alone, the clamp maps every float
  into \<open>[0, 100]\<close> and is idempotent.
\<close>

lemma lead_score_validated:
  "lead_score_field (Some v) =
     (if \<not> fle (Finite 0) v then Inl NumberNotGeError
      else if \<not> fle v (Finite 100) then Inl NumberNotLeError
      else Inr v)
   \<and> (between (Finite 0) v (Finite 100) \<longrightarrow> validate_lead_score v = v)
   \<and> between (Finite 0) (validate_lead_score v) (Finite 100)
   \<and> validate_lead_score (validate_lead_score v) = validate_lead_score v
   \<and> (EnhancedLeadData_kw.lead_score kw = Some v \<and> \<not> between (Finite 0) v (Finite 100) \<longrightarrow>
        (\<exists>errors e. fst (EnhancedLeadData_init clk n kw) = Inl errors
           \<and> (''lead_score'', e) \<in> set errors))
   \<and> (EnhancedLeadData_init clk n kw = (Inr d, n') \<longrightarrow>
        between (Finite 0) (EnhancedLeadData.lead_score d) (Finite 100)
        \<and> EnhancedLeadData.lead_score d =
            (case EnhancedLeadData_kw.lead_score kw of None \<Rightarrow> Finite 0 | Some w \<Rightarrow> w))"
proof -
  have idem: "validate_lead_score (validate_lead_score v) = validate_lead_score v"
    using validate_lead_score_id [OF validate_lead_score_in_range [of v]] .
  have rejected: "\<exists>errors e. fst (EnhancedLeadData_init clk n kw) = Inl errors
           \<and> (''lead_score'', e) \<in> set errors"
    if "EnhancedLeadData_kw.lead_score kw = Some v" "\<not> between (Finite 0) v (Finite 100)"
  proof -
    from that have "\<exists>e. lead_score_field (EnhancedLeadData_kw.lead_score kw) = Inl e"
      by (simp add: lead_score_field_Some)
    then obtain e where "lead_score_field (EnhancedLeadData_kw.lead_score kw) = Inl e" ..
    from EnhancedLeadData_init_lead_score_error [OF this] show ?thesis by blast
  qed
  have stored: "between (Finite 0) (EnhancedLeadData.lead_score d) (Finite 100)
        \<and> EnhancedLeadData.lead_score d =
            (case EnhancedLeadData_kw.lead_score kw of None \<Rightarrow> Finite 0 | Some w \<Rightarrow> w)"
    if "EnhancedLeadData_init clk n kw = (Inr d, n')"
  proof -
    note f = EnhancedLeadData_init_lead_score [OF that]
    from lead_score_field_Inr [OF f] f show ?thesis
      by (cases "EnhancedLeadData_kw.lead_score kw")
         (auto simp: lead_score_field_Some lead_score_field_None split: if_splits)
  qed
  from idem rejected stored validate_lead_score_in_range [of v] validate_lead_score_id [of v]
    lead_score_field_Some [of v]
  show ?thesis by blast
qed

lemma lead_score_validated_example:
  "lead_score_field (Some (Finite 42.5)) = Inr (Finite 42.5)
   \<and> validate_lead_score (Finite 42.5) = Finite 42.5
   \<and> (case EnhancedLeadData_init int 0
             (example_lead_kw\<lparr>EnhancedLeadData_kw.lead_score := Some (Finite 42.5)\<rparr>) of
        (Inr d, n') \<Rightarrow> EnhancedLeadData.lead_score d = Finite 42.5
      | (Inl errors, n') \<Rightarrow> False)
   \<and> (\<exists>errors e.
        fst (EnhancedLeadData_init int 0
               (example_lead_kw\<lparr>EnhancedLeadData_kw.lead_score := Some (Finite (- 3))\<rparr>))
          = Inl errors
        \<and> (''lead_score'', e) \<in> set errors)"
proof -
  let ?kw1 = "example_lead_kw\<lparr>EnhancedLeadData_kw.lead_score := Some (Finite 42.5)\<rparr>"
  let ?kw2 = "example_lead_kw\<lparr>EnhancedLeadData_kw.lead_score := Some (Finite (- 3))\<rparr>"
  obtain r1 m1 where e1: "EnhancedLeadData_init int 0 ?kw1 = (r1, m1)"
    by (cases "EnhancedLeadData_init int 0 ?kw1")
  have "\<exists>d. r1 = Inr d" using e1 by (auto simp: init_eval)
  then obtain d1 where r1: "r1 = Inr d1" ..
  show ?thesis
    using lead_score_validated [of "Finite 42.5" ?kw1 int 0 d1 m1]
      lead_score_validated [of "Finite (- 3)" ?kw2 int 0]
      e1 r1
    by simp
qed

text \<open>
  Claim C1. Every float supplied as \<open>lead_score\<close> is to be accepted and stored clamped
  to \<open>[0, 100]\<close>, which is what \<open>validate_lead_score\<close> computes: it maps 150 to 100.
  The code does not do so. For the arguments \<open>conversation_id = 'conv-1'\<close>,
  \<open>chatbot_id = 'bot-1'\<close>, \<open>lead_score = 150.0\<close> the bounds of the field are checked
  before the validator runs, the field fails with \<open>NumberNotLeError\<close>, and construction
  raises a validation error located at \<open>lead_score\<close> instead of storing 100.
\<close>

theorem lead_score_out_of_range_rejected:
  "lead_score_field (Some (Finite 150)) = Inl NumberNotLeError
   \<and> validate_lead_score (Finite 150) = Finite 100
   \<and> fst (EnhancedLeadData_init int 0
             (example_lead_kw\<lparr>EnhancedLeadData_kw.lead_score := Some (Finite 150)\<rparr>))
      = Inl [(''lead_score'', NumberNotLeError)]"
  by (simp add: init_eval validate_lead_score_def py_max_def py_min_def)

subsection \<open>EnhancedLeadData: the timestamps\<close>

text \<open>
  Claim C2, as stated, fails for caller-supplied timestamps: with the clock at 0, a
  construction given \<open>created_at = 100\<close> and \<open>updated_at = 200\<close> succeeds, keeps the
  supplied \<open>created_at\<close> and replaces \<open>updated_at\<close> by the clock's reading, so that
  \<open>updated_at < created_at\<close>.
\<close>

theorem supplied_created_at_after_updated_at:
  "(case EnhancedLeadData_init int 0
           (example_lead_kw\<lparr>EnhancedLeadData_kw.created_at := Some 100,
                            EnhancedLeadData_kw.updated_at := Some 200\<rparr>) of
      (Inr d, n') \<Rightarrow>
        EnhancedLeadData.created_at d = 100 \<and> EnhancedLeadData.updated_at d = 0
        \<and> EnhancedLeadData.updated_at d < EnhancedLeadData.created_at d
    | (Inl errors, n') \<Rightarrow> False)"
  by (simp add: init_eval)

lemma EnhancedLeadData_init_clock:
  assumes "EnhancedLeadData_init clk n kw = (Inr d, n')"
  shows "n' = n + (if EnhancedLeadData_kw.created_at kw = None then 1 else 0)
              + (if EnhancedLeadData_kw.updated_at kw = None then 1 else 0) + 1"
    and "EnhancedLeadData.updated_at d = clk (n' - 1)"
    and "EnhancedLeadData.created_at d =
           (case EnhancedLeadData_kw.created_at kw of None \<Rightarrow> clk n | Some t \<Rightarrow> t)"
proof -
  have "n' = n + (if EnhancedLeadData_kw.created_at kw = None then 1 else 0)
              + (if EnhancedLeadData_kw.updated_at kw = None then 1 else 0) + 1
    \<and> EnhancedLeadData.updated_at d = clk (n' - 1)
    \<and> EnhancedLeadData.created_at d =
           (case EnhancedLeadData_kw.created_at kw of None \<Rightarrow> clk n | Some t \<Rightarrow> t)"
  proof (cases "EnhancedLeadData_kw.created_at kw")
    case None
    show ?thesis
    proof (cases "EnhancedLeadData_kw.updated_at kw")
      case n2: None
      with None assms show ?thesis
        by (clarsimp simp: EnhancedLeadData_init_def Let_def utcnow_def set_updated_at_def
            split: if_splits)
    next
      case s2: (Some u)
      with None assms show ?thesis
        by (clarsimp simp: EnhancedLeadData_init_def Let_def utcnow_def set_updated_at_def
            split: if_splits)
    qed
  next
    case (Some t)
    show ?thesis
    proof (cases "EnhancedLeadData_kw.updated_at kw")
      case n2: None
      with Some assms show ?thesis
        by (clarsimp simp: EnhancedLeadData_init_def Let_def utcnow_def set_updated_at_def
            split: if_splits)
    next
      case s2: (Some u)
      with Some assms show ?thesis
        by (clarsimp simp: EnhancedLeadData_init_def Let_def utcnow_def set_updated_at_def
            split: if_splits)
    qed
  qed
  then show "n' = n + (if EnhancedLeadData_kw.created_at kw = None then 1 else 0)
              + (if EnhancedLeadData_kw.updated_at kw = None then 1 else 0) + 1"
    and "EnhancedLeadData.updated_at d = clk (n' - 1)"
    and "EnhancedLeadData.created_at d =
           (case EnhancedLeadData_kw.created_at kw of None \<Rightarrow> clk n | Some t \<Rightarrow> t)"
    by blast+
qed

text \<open>
  Claim C2, amended. In every successfully constructed record \<open>updated_at\<close> is the last
  clock reading taken during the construction, whatever the caller supplied, and
  \<open>created_at\<close> is the caller's value when one is supplied, else the first clock reading
  of the construction. Hence \<open>updated_at \<ge> created_at\<close> holds when \<open>created_at\<close> is
  left out and the clock does not run backwards, and when the supplied \<open>created_at\<close> is
  not later than that last reading.
\<close>

theorem updated_at_from_clock:
  "EnhancedLeadData_init clk n kw = (Inr d, n') \<longrightarrow>
     n' = n + (if EnhancedLeadData_kw.created_at kw = None then 1 else 0)
            + (if EnhancedLeadData_kw.updated_at kw = None then 1 else 0) + 1
     \<and> EnhancedLeadData.updated_at d = clk (n' - 1)
     \<and> EnhancedLeadData.created_at d =
         (case EnhancedLeadData_kw.created_at kw of None \<Rightarrow> clk n | Some t \<Rightarrow> t)
     \<and> (EnhancedLeadData_kw.created_at kw = None \<and> (\<forall>i j. i \<le> j \<longrightarrow> clk i \<le> clk j) \<longrightarrow>
          EnhancedLeadData.created_at d \<le> EnhancedLeadData.updated_at d)
     \<and> (\<forall>t. EnhancedLeadData_kw.created_at kw = Some t \<and> t \<le> clk (n' - 1) \<longrightarrow>
          EnhancedLeadData.created_at d \<le> EnhancedLeadData.updated_at d)"
proof
  assume ok: "EnhancedLeadData_init clk n kw = (Inr d, n')"
  note c = EnhancedLeadData_init_clock [OF ok]
  have mono: "EnhancedLeadData.created_at d \<le> EnhancedLeadData.updated_at d"
    if "EnhancedLeadData_kw.created_at kw = None" "\<forall>i j. i \<le> j \<longrightarrow> clk i \<le> clk j"
  proof -
    from c(1) have "n \<le> n' - 1" by simp
    with that(2) have "clk n \<le> clk (n' - 1)" by blast
    with c(2,3) that(1) show ?thesis by simp
  qed
  have past: "EnhancedLeadData.created_at d \<le> EnhancedLeadData.updated_at d"
    if "EnhancedLeadData_kw.created_at kw = Some t" "t \<le> clk (n' - 1)" for t
    using c(2,3) that by simp
  from c mono past
  show "n' = n + (if EnhancedLeadData_kw.created_at kw = None then 1 else 0)
            + (if EnhancedLeadData_kw.updated_at kw = None then 1 else 0) + 1
     \<and> EnhancedLeadData.updated_at d = clk (n' - 1)
     \<and> EnhancedLeadData.created_at d =
         (case EnhancedLeadData_kw.created_at kw of None \<Rightarrow> clk n | Some t \<Rightarrow> t)
     \<and> (EnhancedLeadData_kw.created_at kw = None \<and> (\<forall>i j. i \<le> j \<longrightarrow> clk i \<le> clk j) \<longrightarrow>
          EnhancedLeadData.created_at d \<le> EnhancedLeadData.updated_at d)
     \<and> (\<forall>t. EnhancedLeadData_kw.created_at kw = Some t \<and> t \<le> clk (n' - 1) \<longrightarrow>
          EnhancedLeadData.created_at d \<le> EnhancedLeadData.updated_at d)"
    by blast
qed

theorem updated_at_from_clock_witness:
  "(case EnhancedLeadData_init int 5 example_lead_kw of
      (Inr d, n') \<Rightarrow>
        n' = 8 \<and> EnhancedLeadData.created_at d = 5 \<and> EnhancedLeadData.updated_at d = 7
        \<and> EnhancedLeadData.created_at d \<le> EnhancedLeadData.updated_at d
    | (Inl errors, n') \<Rightarrow> False)
   \<and> (case EnhancedLeadData_init int 5
           (example_lead_kw\<lparr>EnhancedLeadData_kw.created_at := Some 3,
                            EnhancedLeadData_kw.updated_at := Some 4\<rparr>) of
      (Inr d, n') \<Rightarrow>
        n' = 6 \<and> EnhancedLeadData.created_at d = 3 \<and> EnhancedLeadData.updated_at d = 5
        \<and> EnhancedLeadData.created_at d \<le> EnhancedLeadData.updated_at d
    | (Inl errors, n') \<Rightarrow> False)"
proof -
  obtain r1 m1 where e1: "EnhancedLeadData_init int 5 example_lead_kw = (r1, m1)"
    by (cases "EnhancedLeadData_init int 5 example_lead_kw")
  have "\<exists>d. r1 = Inr d" using e1 by (auto simp: init_eval)
  then obtain d1 where r1: "r1 = Inr d1" ..
  have k1: "EnhancedLeadData_kw.created_at example_lead_kw = None"
    "EnhancedLeadData_kw.updated_at example_lead_kw = None"
    by (simp_all add: example_lead_kw_def)
  let ?kw2 = "example_lead_kw\<lparr>EnhancedLeadData_kw.created_at := Some 3,
                            EnhancedLeadData_kw.updated_at := Some 4\<rparr>"
  obtain r2 m2 where e2: "EnhancedLeadData_init int 5 ?kw2 = (r2, m2)"
    by (cases "EnhancedLeadData_init int 5 ?kw2")
  have "\<exists>d. r2 = Inr d" using e2 by (auto simp: init_eval)
  then obtain d2 where r2: "r2 = Inr d2" ..
  show ?thesis
    using updated_at_from_clock [of int 5 example_lead_kw d1 m1]
      updated_at_from_clock [of int 5 ?kw2 d2 m2] e1 e2 r1 r2 k1
    by simp
qed

subsection \<open>Strings\<close>

lemma strip_Nil_iff: "strip s = [] \<longleftrightarrow> (\<forall>c\<in>set s. isspace c)"
proof
  assume "strip s = []"
  then have all: "\<forall>c\<in>set (dropWhile isspace s). isspace c"
    by (simp add: strip_def rstrip_def lstrip_def dropWhile_eq_Nil_conv)
  have "dropWhile isspace s = []"
  proof (rule ccontr)
    assume ne: "dropWhile isspace s \<noteq> []"
    then have "\<not> isspace (hd (dropWhile isspace s))" by (rule hd_dropWhile)
    moreover from ne have "hd (dropWhile isspace s) \<in> set (dropWhile isspace s)" by simp
    ultimately show False using all by blast
  qed
  then show "\<forall>c\<in>set s. isspace c" by simp
next
  assume "\<forall>c\<in>set s. isspace c"
  then have eq: "dropWhile isspace s = []" by simp
  show "strip s = []" unfolding strip_def rstrip_def lstrip_def eq by simp
qed

lemma strip_last: "strip s \<noteq> [] \<Longrightarrow> \<not> isspace (last (strip s))"
  by (simp add: strip_def rstrip_def last_rev hd_dropWhile)

lemma strip_hd:
  assumes "strip s \<noteq> []"
  shows "\<not> isspace (hd (strip s))"
proof -
  let ?t = "dropWhile isspace s"
  have split: "?t = strip s @ rev (takeWhile isspace (rev ?t))"
  proof -
    have "strip s @ rev (takeWhile isspace (rev ?t))
        = rev (takeWhile isspace (rev ?t) @ dropWhile isspace (rev ?t))"
      by (simp only: rev_append strip_def rstrip_def lstrip_def)
    also have "\<dots> = ?t"
      by (simp only: takeWhile_dropWhile_id rev_rev_ident)
    finally show ?thesis by (rule sym)
  qed
  have "?t \<noteq> []"
  proof
    assume e: "?t = []"
    have "strip s = []" unfolding strip_def rstrip_def lstrip_def e by simp
    with assms show False ..
  qed
  then have "\<not> isspace (hd ?t)" by (rule hd_dropWhile)
  moreover from split assms have "hd ?t = hd (strip s)"
    by (metis hd_append2)
  ultimately show ?thesis by simp
qed

lemma constr_length_validator_Some:
  "constr_length_validator lo (Some hi) v =
     (if length v < lo then Inl AnyStrMinLengthError
      else if hi < length v then Inl AnyStrMaxLengthError else Inr v)"
  by (simp add: constr_length_validator_def)

subsection \<open>LeadAnalysisRequest: the message\<close>

lemma message_field_Some:
  "message_field (Some m) =
     (if length m < 1 then Inl AnyStrMinLengthError
      else if 2000 < length m then Inl AnyStrMaxLengthError
      else if strip m = [] then Inl (ValueError ''Message cannot be empty'')
      else Inr (strip m))"
  by (auto simp: message_field_def required_Some constr_length_validator_Some and_then_Inr
      and_then_Inl validate_message_def strip_def rstrip_def lstrip_def)

text \<open>
  Claim C9. A string supplied as the \<open>message\<close> of a \<open>LeadAnalysisRequest\<close> is
  accepted exactly when its length is between 1 and 2000 and it has a character that is
  not whitespace. The stored message is then the supplied one stripped of surrounding
  whitespace: it is not empty and neither starts nor ends with whitespace.
\<close>

theorem message_validated:
  "((\<exists>q. LeadAnalysisRequest_init
            \<lparr>LeadAnalysisRequest_kw.message = Some m,
             LeadAnalysisRequest_kw.conversation_context = cc\<rparr> = Inr q)
      \<longleftrightarrow> 1 \<le> length m \<and> length m \<le> 2000 \<and> (\<exists>c\<in>set m. \<not> isspace c))
   \<and> (LeadAnalysisRequest_init
            \<lparr>LeadAnalysisRequest_kw.message = Some m,
             LeadAnalysisRequest_kw.conversation_context = cc\<rparr> = Inr q
        \<longrightarrow> LeadAnalysisRequest.message q = strip m
          \<and> LeadAnalysisRequest.message q \<noteq> []
          \<and> \<not> isspace (hd (LeadAnalysisRequest.message q))
          \<and> \<not> isspace (last (LeadAnalysisRequest.message q)))"
proof -
  let ?kw = "\<lparr>LeadAnalysisRequest_kw.message = Some m,
             LeadAnalysisRequest_kw.conversation_context = cc\<rparr>"
  have init: "LeadAnalysisRequest_init ?kw =
      (if length m < 1 then Inl [(''message'', AnyStrMinLengthError)]
       else if 2000 < length m then Inl [(''message'', AnyStrMaxLengthError)]
       else if strip m = [] then Inl [(''message'', ValueError ''Message cannot be empty'')]
       else Inr \<lparr>LeadAnalysisRequest.message = strip m,
                 LeadAnalysisRequest.conversation_context = cc\<rparr>)"
    by (simp add: LeadAnalysisRequest_init_def message_field_Some field_rules)
  have iff: "(\<exists>q. LeadAnalysisRequest_init ?kw = Inr q)
      \<longleftrightarrow> 1 \<le> length m \<and> length m \<le> 2000 \<and> (\<exists>c\<in>set m. \<not> isspace c)"
  proof -
    have "(\<exists>q. LeadAnalysisRequest_init ?kw = Inr q)
        \<longleftrightarrow> \<not> length m < 1 \<and> \<not> 2000 < length m \<and> strip m \<noteq> []"
      by (simp add: init)
    also have "\<dots> \<longleftrightarrow> 1 \<le> length m \<and> length m \<le> 2000 \<and> (\<exists>c\<in>set m. \<not> isspace c)"
      using strip_Nil_iff [of m] by (auto simp: not_less Suc_le_eq)
    finally show ?thesis .
  qed
  have stored: "LeadAnalysisRequest.message q = strip m
          \<and> LeadAnalysisRequest.message q \<noteq> []
          \<and> \<not> isspace (hd (LeadAnalysisRequest.message q))
          \<and> \<not> isspace (last (LeadAnalysisRequest.message q))"
    if "LeadAnalysisRequest_init ?kw = Inr q"
  proof -
    from that have "strip m \<noteq> []" "LeadAnalysisRequest.message q = strip m"
      by (auto simp: init split: if_splits)
    with strip_hd [of m] strip_last [of m] show ?thesis by simp
  qed
  from iff stored show ?thesis by blast
qed

theorem message_validated_witness:
  "LeadAnalysisRequest_init
     \<lparr>LeadAnalysisRequest_kw.message = Some ''  hi '',
      LeadAnalysisRequest_kw.conversation_context = None\<rparr>
     = Inr \<lparr>LeadAnalysisRequest.message = ''hi'',
            LeadAnalysisRequest.conversation_context = None\<rparr>
   \<and> 1 \<le> length ''  hi '' \<and> length ''  hi '' \<le> 2000
   \<and> \<not> isspace CHR ''h''
   \<and> strip ''  hi '' = ''hi''
   \<and> \<not> isspace (hd ''hi'') \<and> \<not> isspace (last ''hi'')"
proof -
  have e: "LeadAnalysisRequest_init
     \<lparr>LeadAnalysisRequest_kw.message = Some ''  hi '',
      LeadAnalysisRequest_kw.conversation_context = None\<rparr>
     = Inr \<lparr>LeadAnalysisRequest.message = ''hi'',
            LeadAnalysisRequest.conversation_context = None\<rparr>"
    by (simp add: LeadAnalysisRequest_init_def message_field_Some field_rules
        strip_def rstrip_def lstrip_def isspace_def)
  have s: "strip ''  hi '' = ''hi''"
    by (simp add: strip_def rstrip_def lstrip_def isspace_def)
  show ?thesis
    using message_validated [of "''  hi ''" None
        "\<lparr>LeadAnalysisRequest.message = ''hi'',
          LeadAnalysisRequest.conversation_context = None\<rparr>"]
    by (simp add: e s isspace_def)
qed

subsection \<open>CRMLeadData: the email\<close>

lemma validate_email_Some:
  "validate_email (Some s) =
     (if strip s = [] then Inr (Some s)
      else if CHR ''@'' \<in> set s then Inr (Some (lower (strip s)))
      else Inl (ValueError ''Invalid email format''))"
  by (simp add: validate_email_def)




lemma strip_example: "strip '' A@b.C '' = ''A@b.C''"
  by (simp add: strip_def rstrip_def lstrip_def isspace_def)

lemma lower_example: "lower ''A@b.C'' = ''a@b.c''"
  by code_simp

lemma validate_email_example: "validate_email (Some '' A@b.C '') = Inr (Some ''a@b.c'')"
  by (simp add: validate_email_Some strip_example lower_example)

lemma CRMLeadData_init_example: "CRMLeadData_init example_crm_kw = Inr example_crm"
  unfolding CRMLeadData_init_def example_crm_kw_def example_crm_def Let_def
  by (simp add: field_rules validate_email_example validate_phone_def
      constr_length_validator_Some)



subsection \<open>The scores of the output contracts\<close>

lemma required_bounds_Inr:
  "required (number_size_validator (Some lo) (Some hi)) arg = Inr w
     \<Longrightarrow> arg = Some w \<and> between lo w hi"
  by (cases arg) (auto simp: field_rules split: if_splits)

lemma LeadScoreResponse_init_scores:
  assumes "LeadScoreResponse_init kw = Inr r"
  shows "required (number_size_validator (Some (Finite 0)) (Some (Finite 1)))
           (LeadScoreResponse_kw.total_score kw) = Inr (LeadScoreResponse.total_score r)"
    and "required (number_size_validator (Some (Finite 0)) (Some (Finite 1)))
           (LeadScoreResponse_kw.confidence kw) = Inr (LeadScoreResponse.confidence r)"
proof -
  let ?v = "required (number_size_validator (Some (Finite 0)) (Some (Finite 1)))"
  show "?v (LeadScoreResponse_kw.total_score kw) = Inr (LeadScoreResponse.total_score r)"
    using assms unfolding LeadScoreResponse_init_def Let_def
    by (cases "?v (LeadScoreResponse_kw.total_score kw)")
       (auto simp: errors_at_Inl errors_at_Inr valid_Inr split: if_splits)
  show "?v (LeadScoreResponse_kw.confidence kw) = Inr (LeadScoreResponse.confidence r)"
    using assms unfolding LeadScoreResponse_init_def Let_def
    by (cases "?v (LeadScoreResponse_kw.confidence kw)")
       (auto simp: errors_at_Inl errors_at_Inr valid_Inr split: if_splits)
qed

lemma CRMLeadData_init_scores:
  assumes "CRMLeadData_init kw = Inr d"
  shows "required (number_size_validator (Some (Finite 0)) (Some (Finite 1)))
           (CRMLeadData_kw.lead_score kw) = Inr (CRMLeadData.lead_score d)"
    and "required (number_size_validator (Some (Finite 0)) (Some (Finite 1)))
           (CRMLeadData_kw.confidence kw) = Inr (CRMLeadData.confidence d)"
proof -
  let ?v = "required (number_size_validator (Some (Finite 0)) (Some (Finite 1)))"
  show "?v (CRMLeadData_kw.lead_score kw) = Inr (CRMLeadData.lead_score d)"
    using assms unfolding CRMLeadData_init_def Let_def
    by (cases "?v (CRMLeadData_kw.lead_score kw)")
       (auto simp: errors_at_Inl errors_at_Inr valid_Inr split: if_splits)
  show "?v (CRMLeadData_kw.confidence kw) = Inr (CRMLeadData.confidence d)"
    using assms unfolding CRMLeadData_init_def Let_def
    by (cases "?v (CRMLeadData_kw.confidence kw)")
       (auto simp: errors_at_Inl errors_at_Inr valid_Inr split: if_splits)
qed

lemma LeadScoreResponse_init_example:
  "LeadScoreResponse_init example_response_kw = Inr example_response"
  unfolding LeadScoreResponse_init_def example_response_kw_def example_response_def Let_def
  by (simp add: field_rules)

text \<open>
  Claim C10, as stated, fails: not every score carried on the output contracts is on the
  scale from 0 to 1. The per-factor scores of \<open>scoring_factors\<close> are a
  \<open>Dict[str, float]\<close> without bounds, and a \<open>CRMLeadData\<close> is constructed holding a
  factor score of 90.
\<close>

theorem factor_scores_unbounded:
  "CRMLeadData_init
     (example_crm_kw\<lparr>CRMLeadData_kw.scoring_factors :=
        Some (Map.empty(''intent_confidence'' \<mapsto> Finite 90))\<rparr>)
     = Inr (example_crm\<lparr>CRMLeadData.scoring_factors :=
              Map.empty(''intent_confidence'' \<mapsto> Finite 90)\<rparr>)
   \<and> CRMLeadData.scoring_factors
        (example_crm\<lparr>CRMLeadData.scoring_factors :=
              Map.empty(''intent_confidence'' \<mapsto> Finite 90)\<rparr>) ''intent_confidence''
       = Some (Finite 90)
   \<and> \<not> between (Finite 0) (Finite 90) (Finite 1)"
  unfolding CRMLeadData_init_def example_crm_kw_def example_crm_def Let_def
  by (simp add: field_rules validate_email_example validate_phone_def
      constr_length_validator_Some)

lemma CRMLeadData_init_scoring_factors:
  assumes "CRMLeadData_init (kw\<lparr>CRMLeadData_kw.scoring_factors := Some fs\<rparr>) = Inr d"
  shows "CRMLeadData.scoring_factors d = fs
    \<and> CRMLeadData_init (kw\<lparr>CRMLeadData_kw.scoring_factors := Some gs\<rparr>)
           = Inr (d\<lparr>CRMLeadData.scoring_factors := gs\<rparr>)"
  using assms unfolding CRMLeadData_init_def Let_def
  by (clarsimp simp: required_Some errors_at_Inr valid_Inr split: if_splits)

lemma LeadScoreResponse_init_factors:
  assumes "LeadScoreResponse_init (kw\<lparr>LeadScoreResponse_kw.factors := Some fs\<rparr>) = Inr r"
  shows "LeadScoreResponse.factors r = fs
    \<and> LeadScoreResponse_init (kw\<lparr>LeadScoreResponse_kw.factors := Some gs\<rparr>)
           = Inr (r\<lparr>LeadScoreResponse.factors := gs\<rparr>)"
  using assms unfolding LeadScoreResponse_init_def Let_def
  by (clarsimp simp: required_Some errors_at_Inr valid_Inr split: if_splits)

text \<open>
  Claim C10, amended. The named score fields of the output contracts are on the scale
  from 0 to 1: a \<open>LeadScoreResponse\<close> is constructed only if \<open>total_score\<close> and
  \<open>confidence\<close> are supplied and lie in \<open>[0, 1]\<close>, and a \<open>CRMLeadData\<close> only if
  \<open>lead_score\<close> and \<open>confidence\<close> are supplied and lie in \<open>[0, 1]\<close>; the model
  holds them as supplied. The per-factor scores in \<open>factors\<close> and \<open>scoring_factors\<close>
  are not bounded: the model holds the supplied dictionary as it is, and a construction
  that succeeds with one dictionary succeeds with every other.
\<close>

theorem output_scores_in_unit_interval:
  "(LeadScoreResponse_init kw = Inr r \<longrightarrow>
      LeadScoreResponse_kw.total_score kw = Some (LeadScoreResponse.total_score r)
      \<and> between (Finite 0) (LeadScoreResponse.total_score r) (Finite 1)
      \<and> LeadScoreResponse_kw.confidence kw = Some (LeadScoreResponse.confidence r)
      \<and> between (Finite 0) (LeadScoreResponse.confidence r) (Finite 1))
   \<and> (CRMLeadData_init ckw = Inr d \<longrightarrow>
      CRMLeadData_kw.lead_score ckw = Some (CRMLeadData.lead_score d)
      \<and> between (Finite 0) (CRMLeadData.lead_score d) (Finite 1)
      \<and> CRMLeadData_kw.confidence ckw = Some (CRMLeadData.confidence d)
      \<and> between (Finite 0) (CRMLeadData.confidence d) (Finite 1))
   \<and> (LeadScoreResponse_init (kw\<lparr>LeadScoreResponse_kw.factors := Some fs\<rparr>) = Inr rr \<longrightarrow>
      LeadScoreResponse.factors rr = fs
      \<and> LeadScoreResponse_init (kw\<lparr>LeadScoreResponse_kw.factors := Some gs\<rparr>)
          = Inr (rr\<lparr>LeadScoreResponse.factors := gs\<rparr>))
   \<and> (CRMLeadData_init (ckw\<lparr>CRMLeadData_kw.scoring_factors := Some fs\<rparr>) = Inr dd \<longrightarrow>
      CRMLeadData.scoring_factors dd = fs
      \<and> CRMLeadData_init (ckw\<lparr>CRMLeadData_kw.scoring_factors := Some gs\<rparr>)
          = Inr (dd\<lparr>CRMLeadData.scoring_factors := gs\<rparr>))"
  using LeadScoreResponse_init_scores [of kw r, THEN required_bounds_Inr]
    CRMLeadData_init_scores [of ckw d, THEN required_bounds_Inr]
    LeadScoreResponse_init_factors [where kw = kw and fs = fs and r = rr and gs = gs]
    CRMLeadData_init_scoring_factors [where kw = ckw and fs = fs and d = dd and gs = gs]
  by blast

theorem output_scores_in_unit_interval_witness:
  "LeadScoreResponse_init example_response_kw = Inr example_response
   \<and> LeadScoreResponse.total_score example_response = Finite 0.75
   \<and> between (Finite 0) (Finite 0.75) (Finite 1)
   \<and> LeadScoreResponse.confidence example_response = Finite 0.82
   \<and> between (Finite 0) (Finite 0.82) (Finite 1)
   \<and> CRMLeadData_init example_crm_kw = Inr example_crm
   \<and> CRMLeadData.lead_score example_crm = Finite 0.75
   \<and> CRMLeadData.confidence example_crm = Finite 0.82
   \<and> (\<exists>errors. CRMLeadData_init
         (example_crm_kw\<lparr>CRMLeadData_kw.lead_score := Some (Finite 75)\<rparr>) = Inl errors)
   \<and> CRMLeadData_init
        (example_crm_kw\<lparr>CRMLeadData_kw.scoring_factors :=
           Some (Map.empty(''company_size'' \<mapsto> Finite 90))\<rparr>)
       = Inr (example_crm\<lparr>CRMLeadData.scoring_factors :=
                Map.empty(''company_size'' \<mapsto> Finite 90)\<rparr>)
   \<and> LeadScoreResponse_init
        (example_response_kw\<lparr>LeadScoreResponse_kw.factors :=
           Some (Map.empty(''company_size'' \<mapsto> Finite 90))\<rparr>)
       = Inr (example_response\<lparr>LeadScoreResponse.factors :=
                Map.empty(''company_size'' \<mapsto> Finite 90)\<rparr>)"
proof -
  let ?bad = "example_crm_kw\<lparr>CRMLeadData_kw.lead_score := Some (Finite 75)\<rparr>"
  have bad: "\<exists>errors. CRMLeadData_init ?bad = Inl errors"
  proof (cases "CRMLeadData_init ?bad")
    case (Inl errors)
    then show ?thesis by blast
  next
    case (Inr d)
    with output_scores_in_unit_interval [where ckw = ?bad and d = d]
    have "CRMLeadData_kw.lead_score ?bad = Some (CRMLeadData.lead_score d)"
      and "fle (CRMLeadData.lead_score d) (Finite 1)"
      by blast+
    then have "fle (Finite 75) (Finite 1)" by simp
    then show ?thesis by simp
  qed
  have same: "example_crm_kw\<lparr>CRMLeadData_kw.scoring_factors := Some Map.empty\<rparr> = example_crm_kw"
    "example_response_kw\<lparr>LeadScoreResponse_kw.factors := Some Map.empty\<rparr>
       = example_response_kw"
    by (simp_all add: example_crm_kw_def example_response_kw_def)
  show ?thesis
    using output_scores_in_unit_interval
        [where kw = example_response_kw and r = example_response and ckw = example_crm_kw
          and d = example_crm and fs = Map.empty and rr = example_response
          and gs = "Map.empty(''company_size'' \<mapsto> Finite 90)" and dd = example_crm]
      bad
    by (simp add: same LeadScoreResponse_init_example CRMLeadData_init_example
        example_response_def example_crm_def)
qed

subsection \<open>Scoring aggregator\<close>

lemma invalid_weights_iff:
  "invalid_weights w \<longleftrightarrow>
     (engagement_weight w < 0 \<or> intent_weight w < 0 \<or> qualification_weight w < 0
      \<or> urgency_weight w < 0 \<or> fit_weight w < 0
      \<or> (engagement_weight w = 0 \<and> intent_weight w = 0 \<and> qualification_weight w = 0
          \<and> urgency_weight w = 0 \<and> fit_weight w = 0))"
  by (simp add: invalid_weights_def weight_list_def)

lemma weight_sum_positive:
  assumes "\<not> invalid_weights w"
  shows "0 < sum_list (weight_list w)"
  using assms by (auto simp: invalid_weights_iff weight_list_def)

lemma clamp_score_range: "0 \<le> clamp_score x \<and> clamp_score x \<le> 100"
  by (simp add: clamp_score_def)

lemma bant_fraction_range: "0 \<le> bant_fraction q \<and> bant_fraction q \<le> 1"
  by (simp add: bant_fraction_def)

lemma weighted_term_bounds:
  fixes a x :: real
  assumes "0 \<le> a" "0 \<le> x" "x \<le> 1"
  shows "0 \<le> a * x" "a * x \<le> a"
  using assms by (simp_all add: mult_left_le)

lemma normalized_range:
  assumes w: "\<not> invalid_weights w"
    and f: "0 \<le> engagement_value f" "engagement_value f \<le> 1"
      "0 \<le> intent_value f" "intent_value f \<le> 1"
      "0 \<le> qualification_value f" "qualification_value f \<le> 1"
      "0 \<le> urgency_value f" "urgency_value f \<le> 1"
      "0 \<le> fit_value f" "fit_value f \<le> 1"
  shows "0 \<le> normalized w f \<and> normalized w f \<le> 1"
proof -
  from w have nn: "0 \<le> engagement_weight w" "0 \<le> intent_weight w"
    "0 \<le> qualification_weight w" "0 \<le> urgency_weight w" "0 \<le> fit_weight w"
    by (auto simp: invalid_weights_iff)
  have pos: "0 < sum_list (weight_list w)" using w by (rule weight_sum_positive)
  note t = weighted_term_bounds [OF nn(1) f(1,2)] weighted_term_bounds [OF nn(2) f(3,4)]
    weighted_term_bounds [OF nn(3) f(5,6)] weighted_term_bounds [OF nn(4) f(7,8)]
    weighted_term_bounds [OF nn(5) f(9,10)]
  from t have lo: "0 \<le> weighted_sum w f" by (simp add: weighted_sum_def)
  from t have hi: "weighted_sum w f \<le> sum_list (weight_list w)"
    by (simp add: weighted_sum_def weight_list_def)
  from lo hi pos show ?thesis by (simp add: normalized_def)
qed

text \<open>
  Claim C6. For every input and every valid weight configuration (no weight negative, not
  all weights zero) \<open>compute_score\<close> returns a score and the factor values. The factor
  values are those of the curves, a quarter for each of budget, authority, need and
  timeline that is present and not empty, and the fit or one half without a profile. The
  score is the sum of the five factor values, each multiplied by its weight, divided by
  the sum of the five weights, multiplied by 100 and clamped with
  \<open>max(0, min(100, value))\<close>; it lies in \<open>[0, 100]\<close>. When the values of the curves
  lie in \<open>[0, 1]\<close>, the clamp does not change the scaled value.
\<close>

theorem compute_score_in_range:
  "0 \<le> engagement_weight w \<and> 0 \<le> intent_weight w \<and> 0 \<le> qualification_weight w
   \<and> 0 \<le> urgency_weight w \<and> 0 \<le> fit_weight w
   \<and> \<not> (engagement_weight w = 0 \<and> intent_weight w = 0 \<and> qualification_weight w = 0
          \<and> urgency_weight w = 0 \<and> fit_weight w = 0)
   \<longrightarrow>
     (\<exists>score f. compute_score curves metrics signals qualification w = Inr (score, f)
        \<and> engagement_value f = engagement_curve curves metrics
        \<and> intent_value f = intent_curve curves signals
        \<and> qualification_value f =
            (if QualificationData.budget qualification = None
                \<or> QualificationData.budget qualification = Some [] then 0 else 1 / 4)
            + (if QualificationData.authority qualification = None
                \<or> QualificationData.authority qualification = Some [] then 0 else 1 / 4)
            + (if QualificationData.need qualification = None
                \<or> QualificationData.need qualification = Some [] then 0 else 1 / 4)
            + (if QualificationData.timeline qualification = None
                \<or> QualificationData.timeline qualification = Some [] then 0 else 1 / 4)
        \<and> urgency_value f = urgency_curve curves signals
        \<and> fit_value f =
            (case fit_curve curves of None \<Rightarrow> 1 / 2 | Some fit \<Rightarrow> fit qualification)
        \<and> score =
            max 0 (min 100
              (100 * ((engagement_weight w * engagement_value f
                       + intent_weight w * intent_value f
                       + qualification_weight w * qualification_value f
                       + urgency_weight w * urgency_value f
                       + fit_weight w * fit_value f)
                      / (engagement_weight w + intent_weight w + qualification_weight w
                         + urgency_weight w + fit_weight w))))
        \<and> 0 \<le> score \<and> score \<le> 100
        \<and> (0 \<le> engagement_curve curves metrics \<and> engagement_curve curves metrics \<le> 1
            \<and> 0 \<le> intent_curve curves signals \<and> intent_curve curves signals \<le> 1
            \<and> 0 \<le> urgency_curve curves signals \<and> urgency_curve curves signals \<le> 1
            \<and> (\<forall>fit. fit_curve curves = Some fit \<longrightarrow>
                  0 \<le> fit qualification \<and> fit qualification \<le> 1)
            \<longrightarrow> score =
                  100 * ((engagement_weight w * engagement_value f
                          + intent_weight w * intent_value f
                          + qualification_weight w * qualification_value f
                          + urgency_weight w * urgency_value f
                          + fit_weight w * fit_value f)
                         / (engagement_weight w + intent_weight w + qualification_weight w
                            + urgency_weight w + fit_weight w))))"
proof
  assume v: "0 \<le> engagement_weight w \<and> 0 \<le> intent_weight w \<and> 0 \<le> qualification_weight w
   \<and> 0 \<le> urgency_weight w \<and> 0 \<le> fit_weight w
   \<and> \<not> (engagement_weight w = 0 \<and> intent_weight w = 0 \<and> qualification_weight w = 0
          \<and> urgency_weight w = 0 \<and> fit_weight w = 0)"
  then have w: "\<not> invalid_weights w"
    by (auto simp: invalid_weights_iff)
  let ?f = "factors_of curves metrics signals qualification"
  let ?x = "100 * ((engagement_weight w * engagement_value ?f
                       + intent_weight w * intent_value ?f
                       + qualification_weight w * qualification_value ?f
                       + urgency_weight w * urgency_value ?f
                       + fit_weight w * fit_value ?f)
                      / (engagement_weight w + intent_weight w + qualification_weight w
                         + urgency_weight w + fit_weight w))"
  have x: "100 * normalized w ?f = ?x"
    by (simp add: normalized_def weighted_sum_def weight_list_def)
  have res: "compute_score curves metrics signals qualification w = Inr (max 0 (min 100 ?x), ?f)"
    using w by (simp add: compute_score_def Let_def clamp_score_def x)
  have q: "qualification_value ?f =
            (if QualificationData.budget qualification = None
                \<or> QualificationData.budget qualification = Some [] then 0 else 1 / 4)
            + (if QualificationData.authority qualification = None
                \<or> QualificationData.authority qualification = Some [] then 0 else 1 / 4)
            + (if QualificationData.need qualification = None
                \<or> QualificationData.need qualification = Some [] then 0 else 1 / 4)
            + (if QualificationData.timeline qualification = None
                \<or> QualificationData.timeline qualification = Some [] then 0 else 1 / 4)"
    by (simp add: factors_of_def bant_fraction_def populated_def split: option.splits)
  have fs: "engagement_value ?f = engagement_curve curves metrics"
    "intent_value ?f = intent_curve curves signals"
    "urgency_value ?f = urgency_curve curves signals"
    "fit_value ?f = (case fit_curve curves of None \<Rightarrow> 1 / 2 | Some fit \<Rightarrow> fit qualification)"
    by (simp_all add: factors_of_def)
  have range: "0 \<le> max 0 (min 100 ?x) \<and> max 0 (min 100 ?x) \<le> 100"
    by simp
  have unclamped: "max 0 (min 100 ?x) = ?x"
    if c: "0 \<le> engagement_curve curves metrics \<and> engagement_curve curves metrics \<le> 1
            \<and> 0 \<le> intent_curve curves signals \<and> intent_curve curves signals \<le> 1
            \<and> 0 \<le> urgency_curve curves signals \<and> urgency_curve curves signals \<le> 1
            \<and> (\<forall>fit. fit_curve curves = Some fit \<longrightarrow>
                  0 \<le> fit qualification \<and> fit qualification \<le> 1)"
  proof -
    have fit: "0 \<le> fit_value ?f \<and> fit_value ?f \<le> 1"
      using c by (cases "fit_curve curves") (simp_all add: factors_of_def)
    have "0 \<le> normalized w ?f \<and> normalized w ?f \<le> 1"
      using w c fit bant_fraction_range [of qualification]
      by (intro normalized_range) (simp_all add: factors_of_def)
    then have "0 \<le> 100 * normalized w ?f \<and> 100 * normalized w ?f \<le> 100" by simp
    then show ?thesis unfolding x by simp
  qed
  show "\<exists>score f. compute_score curves metrics signals qualification w = Inr (score, f)
        \<and> engagement_value f = engagement_curve curves metrics
        \<and> intent_value f = intent_curve curves signals
        \<and> qualification_value f =
            (if QualificationData.budget qualification = None
                \<or> QualificationData.budget qualification = Some [] then 0 else 1 / 4)
            + (if QualificationData.authority qualification = None
                \<or> QualificationData.authority qualification = Some [] then 0 else 1 / 4)
            + (if QualificationData.need qualification = None
                \<or> QualificationData.need qualification = Some [] then 0 else 1 / 4)
            + (if QualificationData.timeline qualification = None
                \<or> QualificationData.timeline qualification = Some [] then 0 else 1 / 4)
        \<and> urgency_value f = urgency_curve curves signals
        \<and> fit_value f =
            (case fit_curve curves of None \<Rightarrow> 1 / 2 | Some fit \<Rightarrow> fit qualification)
        \<and> score =
            max 0 (min 100
              (100 * ((engagement_weight w * engagement_value f
                       + intent_weight w * intent_value f
                       + qualification_weight w * qualification_value f
                       + urgency_weight w * urgency_value f
                       + fit_weight w * fit_value f)
                      / (engagement_weight w + intent_weight w + qualification_weight w
                         + urgency_weight w + fit_weight w))))
        \<and> 0 \<le> score \<and> score \<le> 100
        \<and> (0 \<le> engagement_curve curves metrics \<and> engagement_curve curves metrics \<le> 1
            \<and> 0 \<le> intent_curve curves signals \<and> intent_curve curves signals \<le> 1
            \<and> 0 \<le> urgency_curve curves signals \<and> urgency_curve curves signals \<le> 1
            \<and> (\<forall>fit. fit_curve curves = Some fit \<longrightarrow>
                  0 \<le> fit qualification \<and> fit qualification \<le> 1)
            \<longrightarrow> score =
                  100 * ((engagement_weight w * engagement_value f
                          + intent_weight w * intent_value f
                          + qualification_weight w * qualification_value f
                          + urgency_weight w * urgency_value f
                          + fit_weight w * fit_value f)
                         / (engagement_weight w + intent_weight w + qualification_weight w
                            + urgency_weight w + fit_weight w)))"
    apply (rule exI [of _ "max 0 (min 100 ?x)"])
    apply (rule exI [of _ ?f])
    using res q fs range unclamped by blast
qed

lemma example_weights_valid: "\<not> invalid_weights example_weights"
  by (simp add: invalid_weights_iff example_weights_def)

lemma example_factors:
  "factors_of example_curves ConversationMetrics_default example_signals example_qualification
     = \<lparr>engagement_value = 4 / 5, intent_value = 9 / 10, qualification_value = 1 / 2,
        urgency_value = 2 / 5, fit_value = 1 / 2\<rparr>"
  by (simp add: factors_of_def example_curves_def example_qualification_def
      QualificationData_default_def bant_fraction_def populated_def)

lemma example_normalized:
  "normalized example_weights
     \<lparr>engagement_value = 4 / 5, intent_value = 9 / 10, qualification_value = 1 / 2,
      urgency_value = 2 / 5, fit_value = 1 / 2\<rparr> = 67 / 100"
  by (simp add: normalized_def weighted_sum_def weight_list_def example_weights_def)

lemma example_score:
  "compute_score example_curves ConversationMetrics_default example_signals
        example_qualification example_weights
      = Inr (67, \<lparr>engagement_value = 4 / 5, intent_value = 9 / 10,
                  qualification_value = 1 / 2, urgency_value = 2 / 5, fit_value = 1 / 2\<rparr>)"
  by (simp add: compute_score_def example_weights_valid example_factors Let_def
      example_normalized clamp_score_def)

lemma example_score_without_fit:
  "compute_score example_curves ConversationMetrics_default example_signals
        example_qualification (example_weights\<lparr>fit_weight := 0\<rparr>)
      = Inr (620 / 9, \<lparr>engagement_value = 4 / 5, intent_value = 9 / 10,
                  qualification_value = 1 / 2, urgency_value = 2 / 5, fit_value = 1 / 2\<rparr>)"
proof -
  have v: "\<not> invalid_weights (example_weights\<lparr>fit_weight := 0\<rparr>)"
    by (simp add: invalid_weights_iff example_weights_def)
  have n: "normalized (example_weights\<lparr>fit_weight := 0\<rparr>)
     \<lparr>engagement_value = 4 / 5, intent_value = 9 / 10, qualification_value = 1 / 2,
      urgency_value = 2 / 5, fit_value = 1 / 2\<rparr> = 62 / 90"
    by (simp add: normalized_def weighted_sum_def weight_list_def example_weights_def)
  show ?thesis
    by (simp add: compute_score_def v example_factors Let_def n clamp_score_def)
qed

theorem compute_score_in_range_witness:
  "0 \<le> engagement_weight example_weights \<and> 0 \<le> intent_weight example_weights
   \<and> 0 \<le> qualification_weight example_weights \<and> 0 \<le> urgency_weight example_weights
   \<and> 0 \<le> fit_weight example_weights \<and> engagement_weight example_weights \<noteq> 0
   \<and> compute_score example_curves ConversationMetrics_default example_signals
        example_qualification example_weights
      = Inr (67, \<lparr>engagement_value = 4 / 5, intent_value = 9 / 10,
                  qualification_value = 1 / 2, urgency_value = 2 / 5, fit_value = 1 / 2\<rparr>)
   \<and> (67::real) =
       max 0 (min 100 (100 * ((1 / 5 * (4 / 5) + 3 / 10 * (9 / 10) + 3 / 10 * (1 / 2)
                               + 1 / 10 * (2 / 5) + 1 / 10 * (1 / 2))
                              / (1 / 5 + 3 / 10 + 3 / 10 + 1 / 10 + 1 / 10))))
   \<and> (0::real) \<le> 67 \<and> (67::real) \<le> 100
   \<and> compute_score example_curves ConversationMetrics_default example_signals
        example_qualification (example_weights\<lparr>fit_weight := 0\<rparr>)
      = Inr (620 / 9, \<lparr>engagement_value = 4 / 5, intent_value = 9 / 10,
                  qualification_value = 1 / 2, urgency_value = 2 / 5, fit_value = 1 / 2\<rparr>)"
proof -
  have k: "engagement_weight example_weights = 1 / 5" "intent_weight example_weights = 3 / 10"
    "qualification_weight example_weights = 3 / 10" "urgency_weight example_weights = 1 / 10"
    "fit_weight example_weights = 1 / 10"
    by (simp_all add: example_weights_def)
  show ?thesis
    using compute_score_in_range [of example_weights example_curves
        ConversationMetrics_default example_signals example_qualification]
      compute_score_in_range [of "example_weights\<lparr>fit_weight := 0\<rparr>" example_curves
        ConversationMetrics_default example_signals example_qualification]
    by (simp add: example_score example_score_without_fit k)
qed

subsection \<open>Weight configurations\<close>

text \<open>
  Claim C5, as stated, fails on the data model: \<open>LeadScoringFactors\<close> is constructed
  from an engagement weight of -1, which it stores, and gives the weights left out the
  default 0.0.
\<close>

theorem negative_weight_accepted_by_model:
  "flt (Finite (- 1)) (Finite 0)
   \<and> LeadScoringFactors_init
        \<lparr>LeadScoringFactors_kw.engagement_factor = Some (Finite (- 1)),
         LeadScoringFactors_kw.intent_factor = None,
         LeadScoringFactors_kw.qualification_factor = None,
         LeadScoringFactors_kw.urgency_factor = None,
         LeadScoringFactors_kw.fit_factor = None\<rparr>
      = Inr \<lparr>LeadScoringFactors.engagement_factor = Finite (- 1),
             LeadScoringFactors.intent_factor = Finite 0,
             LeadScoringFactors.qualification_factor = Finite 0,
             LeadScoringFactors.urgency_factor = Finite 0,
             LeadScoringFactors.fit_factor = Finite 0\<rparr>"
  unfolding LeadScoringFactors_init_def Let_def
  by (simp add: field_rules)

lemma LeadScoringFactors_init_total:
  "LeadScoringFactors_init kw =
     Inr \<lparr>LeadScoringFactors.engagement_factor =
            (case LeadScoringFactors_kw.engagement_factor kw of
               None \<Rightarrow> Finite 0 | Some v \<Rightarrow> v),
          LeadScoringFactors.intent_factor =
            (case LeadScoringFactors_kw.intent_factor kw of None \<Rightarrow> Finite 0 | Some v \<Rightarrow> v),
          LeadScoringFactors.qualification_factor =
            (case LeadScoringFactors_kw.qualification_factor kw of
               None \<Rightarrow> Finite 0 | Some v \<Rightarrow> v),
          LeadScoringFactors.urgency_factor =
            (case LeadScoringFactors_kw.urgency_factor kw of None \<Rightarrow> Finite 0 | Some v \<Rightarrow> v),
          LeadScoringFactors.fit_factor =
            (case LeadScoringFactors_kw.fit_factor kw of None \<Rightarrow> Finite 0 | Some v \<Rightarrow> v)\<rparr>"
proof -
  have f: "with_default (Finite 0) Inr arg = Inr (case arg of None \<Rightarrow> Finite 0 | Some v \<Rightarrow> v)"
    for arg :: "pyfloat option"
    by (cases arg) (simp_all add: field_rules)
  show ?thesis
    unfolding LeadScoringFactors_init_def Let_def f
    by (simp add: field_rules)
qed

text \<open>
  Claim C5, amended. A weight configuration is invalid exactly when some weight is
  negative or all weights are zero, and for every invalid configuration the scoring pass
  fails with \<open>InvalidWeightConfiguration\<close> and returns no score. The data model
  \<open>LeadScoringFactors\<close> does not check its weights: its construction always succeeds,
  stores every supplied weight as it is, negative ones included, and gives a weight left
  out the default 0.0.
\<close>

theorem invalid_weights_rejected:
  "(invalid_weights w \<longleftrightarrow>
      (engagement_weight w < 0 \<or> intent_weight w < 0 \<or> qualification_weight w < 0
       \<or> urgency_weight w < 0 \<or> fit_weight w < 0
       \<or> (engagement_weight w = 0 \<and> intent_weight w = 0 \<and> qualification_weight w = 0
           \<and> urgency_weight w = 0 \<and> fit_weight w = 0)))
   \<and> (invalid_weights w \<longrightarrow>
        compute_score curves metrics signals qualification w = Inl InvalidWeightConfiguration)
   \<and> LeadScoringFactors_init kw =
       Inr \<lparr>LeadScoringFactors.engagement_factor =
              (case LeadScoringFactors_kw.engagement_factor kw of
                 None \<Rightarrow> Finite 0 | Some v \<Rightarrow> v),
            LeadScoringFactors.intent_factor =
              (case LeadScoringFactors_kw.intent_factor kw of
                 None \<Rightarrow> Finite 0 | Some v \<Rightarrow> v),
            LeadScoringFactors.qualification_factor =
              (case LeadScoringFactors_kw.qualification_factor kw of
                 None \<Rightarrow> Finite 0 | Some v \<Rightarrow> v),
            LeadScoringFactors.urgency_factor =
              (case LeadScoringFactors_kw.urgency_factor kw of
                 None \<Rightarrow> Finite 0 | Some v \<Rightarrow> v),
            LeadScoringFactors.fit_factor =
              (case LeadScoringFactors_kw.fit_factor kw of
                 None \<Rightarrow> Finite 0 | Some v \<Rightarrow> v)\<rparr>"
  using invalid_weights_iff [of w] LeadScoringFactors_init_total [of kw]
  by (simp add: compute_score_def)

theorem invalid_weights_rejected_witness:
  "invalid_weights (example_weights\<lparr>urgency_weight := - 1\<rparr>)
   \<and> compute_score example_curves ConversationMetrics_default example_signals
        example_qualification (example_weights\<lparr>urgency_weight := - 1\<rparr>)
      = Inl InvalidWeightConfiguration
   \<and> invalid_weights
        \<lparr>engagement_weight = 0, intent_weight = 0, qualification_weight = 0,
         urgency_weight = 0, fit_weight = 0\<rparr>
   \<and> compute_score example_curves ConversationMetrics_default example_signals
        example_qualification
        \<lparr>engagement_weight = 0, intent_weight = 0, qualification_weight = 0,
         urgency_weight = 0, fit_weight = 0\<rparr>
      = Inl InvalidWeightConfiguration"
  using invalid_weights_rejected [of "example_weights\<lparr>urgency_weight := - 1\<rparr>"
      example_curves ConversationMetrics_default example_signals example_qualification]
    invalid_weights_rejected [of "\<lparr>engagement_weight = 0, intent_weight = 0,
      qualification_weight = 0, urgency_weight = 0, fit_weight = 0\<rparr>"
      example_curves ConversationMetrics_default example_signals example_qualification]
  by (simp add: example_weights_def)

subsection \<open>Qualification-stage state machine\<close>

lemma stage_step_terminal:
  "terminal (stage st) \<Longrightarrow> stage (stage_step cfg st p) = stage st"
  by (simp add: stage_step_def Let_def)

lemma next_stage_rank: "stage_rank s \<le> stage_rank (next_stage s)"
  by (cases s) simp_all

lemma stage_step_forward:
  "stage (stage_step cfg st p) = DISQUALIFIED
   \<or> stage_rank (stage st) \<le> stage_rank (stage (stage_step cfg st p))"
  by (simp add: stage_step_def Let_def next_stage_rank)

lemma stage_run_terminal:
  "terminal (stage st) \<Longrightarrow> stage (stage_run cfg st ps) = stage st"
proof (induction ps arbitrary: st)
  case Nil
  then show ?case by simp
next
  case (Cons p ps)
  from Cons.prems have s: "stage (stage_step cfg st p) = stage st"
    by (rule stage_step_terminal)
  with Cons.prems have "terminal (stage (stage_step cfg st p))" by simp
  from Cons.IH [OF this] s show ?case by simp
qed

lemma stage_run_forward:
  "stage (stage_run cfg st ps) = DISQUALIFIED
   \<or> stage_rank (stage st) \<le> stage_rank (stage (stage_run cfg st ps))"
proof (induction ps arbitrary: st)
  case Nil
  then show ?case by simp
next
  case (Cons p ps)
  let ?st = "stage_step cfg st p"
  show ?case
  proof (cases "stage ?st = DISQUALIFIED")
    case True
    then have "terminal (stage ?st)" by (simp add: terminal_def)
    from stage_run_terminal [OF this] True show ?thesis by simp
  next
    case False
    with stage_step_forward [of cfg st p]
    have "stage_rank (stage st) \<le> stage_rank (stage ?st)" by simp
    with Cons.IH [of ?st] show ?thesis by auto
  qed
qed

lemma stage_run_append:
  "stage_run cfg st (ps @ qs) = stage_run cfg (stage_run cfg st ps) qs"
  by (induction ps arbitrary: st) simp_all

text \<open>
  Claim C7. Along every sequence of scoring passes, from any state: the stage reached
  after further passes is \<open>DISQUALIFIED\<close> or is not earlier in the order of the stages
  than the stage before them; and once the stage is \<open>QUALIFIED\<close> or \<open>DISQUALIFIED\<close>,
  it stays what it is.
\<close>

theorem stage_never_regresses:
  "(stage (stage_run cfg st (ps @ qs)) = DISQUALIFIED
    \<or> stage_rank (stage (stage_run cfg st ps))
        \<le> stage_rank (stage (stage_run cfg st (ps @ qs))))
   \<and> (terminal (stage (stage_run cfg st ps)) \<longrightarrow>
        stage (stage_run cfg st (ps @ qs)) = stage (stage_run cfg st ps))"
  using stage_run_forward [of cfg "stage_run cfg st ps" qs]
    stage_run_terminal [of "stage_run cfg st ps" cfg qs]
  by (simp add: stage_run_append)

lemma example_run:
  "stage (stage_run example_stage_config
            \<lparr>stage = NEED_ASSESSMENT, observed_scores = []\<rparr>
            [example_pass 40, example_pass 30]) = AUTHORITY_VERIFICATION"
  "stage (stage_run example_stage_config
            \<lparr>stage = NEED_ASSESSMENT, observed_scores = []\<rparr>
            [example_pass 40, example_pass 30, example_pass 20]) = DISQUALIFIED"
  by (simp_all add: stage_step_def example_stage_config_def example_pass_def
      example_qualification_def QualificationData_default_def populated_def
      declining_trend_def terminal_def Let_def)

theorem stage_never_regresses_witness:
  "stage (stage_run example_stage_config
            \<lparr>stage = NEED_ASSESSMENT, observed_scores = []\<rparr>
            ([] @ [example_pass 40, example_pass 30])) = AUTHORITY_VERIFICATION
   \<and> stage_rank NEED_ASSESSMENT \<le> stage_rank AUTHORITY_VERIFICATION
   \<and> stage (stage_run example_stage_config
            \<lparr>stage = NEED_ASSESSMENT, observed_scores = []\<rparr>
            [example_pass 40, example_pass 30, example_pass 20]) = DISQUALIFIED
   \<and> terminal DISQUALIFIED
   \<and> stage (stage_run example_stage_config
            \<lparr>stage = NEED_ASSESSMENT, observed_scores = []\<rparr>
            ([example_pass 40, example_pass 30, example_pass 20] @ [example_pass 90]))
       = DISQUALIFIED"
  using stage_never_regresses [of example_stage_config
      "\<lparr>stage = NEED_ASSESSMENT, observed_scores = []\<rparr>"
      "[example_pass 40, example_pass 30, example_pass 20]" "[example_pass 90]"]
    stage_never_regresses [of example_stage_config
      "\<lparr>stage = NEED_ASSESSMENT, observed_scores = []\<rparr>"
      "[]" "[example_pass 40, example_pass 30]"]
    example_run
  by (simp add: terminal_def)

end
